theory Spec2Isabelle
  imports Complex_Main "HOL-Library.Word"
begin

unbundle bit_operations_syntax

section \<open>Machine types of the native monitor\<close>

text \<open>
  The native code is Windows code: \<open>ULONG\<close>, \<open>DWORD\<close> and \<open>unsigned long\<close> are
  32-bit unsigned integers, \<open>int\<close> and \<open>LONG\<close> are 32-bit signed ones.
\<close>

type_synonym ULONG = "32 word"
type_synonym DWORD = "32 word"

section \<open>Utils: quality to RSSI\<close>

text \<open>
  \<open>(int) x\<close> on a \<open>double\<close>: the fractional part is discarded (truncation
  towards zero).
\<close>

definition double_to_int :: "rat \<Rightarrow> int" where
  "double_to_int x = (if 0 \<le> x then \<lfloor>x\<rfloor> else \<lceil>x\<rceil>)"

text \<open>
  \<open>QualityToRSSI\<close> of Utils.cpp. The third return computes
  \<open>(int)((double)quality / 2.0) - 100\<close>; it is reached only for \<open>0 < quality < 100\<close>,
  where the conversion to \<open>double\<close> and the division by \<open>2.0\<close> are exact, so the
  quotient is the rational number \<open>quality / 2\<close>. The result lies far inside the range
  of a 32-bit \<open>int\<close> and is given as an integer.
\<close>

definition QualityToRSSI :: "ULONG \<Rightarrow> int" where
  "QualityToRSSI quality =
     (if quality = 0 then - 100
      else if quality \<ge> 100 then - 50
      else double_to_int (of_nat (unat quality) / 2) - 100)"

text \<open>
  The conversion as the specification words it, on the quality as a natural number:
  \<open>q == 0 \<rightarrow> -100\<close>; \<open>q >= 100 \<rightarrow> -50\<close>; otherwise \<open>floor(q / 2) - 100\<close>.
\<close>

definition toRssi :: "nat \<Rightarrow> int" where
  "toRssi q =
     (if q = 0 then - 100
      else if q \<ge> 100 then - 50
      else \<lfloor>(of_nat q :: real) / 2\<rfloor> - 100)"

section \<open>Platform types and constants\<close>

text \<open>
  The values below are those of the platform headers the code includes (\<open>windows.h\<close>,
  \<open>netlistmgr.h\<close>, \<open>wlanapi.h\<close>); the headers are not part of the repository. An
  \<open>HRESULT\<close> is a 32-bit signed value, a failure when negative. \<open>NLM_CONNECTIVITY\<close> is
  a set of bit flags in a 32-bit value.
\<close>

type_synonym HRESULT = "32 word"
type_synonym UINT = "32 word"
type_synonym NLM_CONNECTIVITY = "32 word"

definition FAILED :: "HRESULT \<Rightarrow> bool" where
  "FAILED hr = (sint hr < 0)"

definition SUCCEEDED :: "HRESULT \<Rightarrow> bool" where
  "SUCCEEDED hr = (0 \<le> sint hr)"

definition ERROR_SUCCESS :: DWORD where "ERROR_SUCCESS = 0"

definition NLM_CONNECTIVITY_DISCONNECTED :: NLM_CONNECTIVITY where
  "NLM_CONNECTIVITY_DISCONNECTED = 0"
definition NLM_CONNECTIVITY_IPV4_NOTRAFFIC :: NLM_CONNECTIVITY where
  "NLM_CONNECTIVITY_IPV4_NOTRAFFIC = 0x1"
definition NLM_CONNECTIVITY_IPV6_NOTRAFFIC :: NLM_CONNECTIVITY where
  "NLM_CONNECTIVITY_IPV6_NOTRAFFIC = 0x2"
definition NLM_CONNECTIVITY_IPV4_SUBNET :: NLM_CONNECTIVITY where
  "NLM_CONNECTIVITY_IPV4_SUBNET = 0x10"
definition NLM_CONNECTIVITY_IPV4_LOCALNETWORK :: NLM_CONNECTIVITY where
  "NLM_CONNECTIVITY_IPV4_LOCALNETWORK = 0x20"
definition NLM_CONNECTIVITY_IPV4_INTERNET :: NLM_CONNECTIVITY where
  "NLM_CONNECTIVITY_IPV4_INTERNET = 0x40"
definition NLM_CONNECTIVITY_IPV6_SUBNET :: NLM_CONNECTIVITY where
  "NLM_CONNECTIVITY_IPV6_SUBNET = 0x100"
definition NLM_CONNECTIVITY_IPV6_LOCALNETWORK :: NLM_CONNECTIVITY where
  "NLM_CONNECTIVITY_IPV6_LOCALNETWORK = 0x200"
definition NLM_CONNECTIVITY_IPV6_INTERNET :: NLM_CONNECTIVITY where
  "NLM_CONNECTIVITY_IPV6_INTERNET = 0x400"

definition WLAN_NOTIFICATION_SOURCE_NONE :: DWORD where
  "WLAN_NOTIFICATION_SOURCE_NONE = 0"
definition WLAN_NOTIFICATION_SOURCE_ACM :: DWORD where
  "WLAN_NOTIFICATION_SOURCE_ACM = 0x8"
definition WLAN_NOTIFICATION_SOURCE_MSM :: DWORD where
  "WLAN_NOTIFICATION_SOURCE_MSM = 0x10"

definition wlan_notification_msm_connected :: DWORD where
  "wlan_notification_msm_connected = 4"
definition wlan_notification_msm_signal_quality_change :: DWORD where
  "wlan_notification_msm_signal_quality_change = 8"
definition wlan_notification_msm_disconnected :: DWORD where
  "wlan_notification_msm_disconnected = 10"

definition WM_USER :: UINT where "WM_USER = 0x400"

text \<open>The two message identifiers NetworkMonitor.cpp defines.\<close>

definition WM_NETWORK_STATUS_CHANGE :: UINT where
  "WM_NETWORK_STATUS_CHANGE = WM_USER + 107"

definition WM_WIFI_SIGNAL_CHANGE :: UINT where
  "WM_WIFI_SIGNAL_CHANGE = WM_USER + 108"

datatype WLAN_INTERFACE_STATE =
    wlan_interface_state_not_ready
  | wlan_interface_state_connected
  | wlan_interface_state_ad_hoc_network_formed
  | wlan_interface_state_disconnecting
  | wlan_interface_state_disconnected
  | wlan_interface_state_associating
  | wlan_interface_state_discovering
  | wlan_interface_state_authenticating

text \<open>
  A pointer is \<open>NULL\<close> or refers to something. The interface pointers and the handle
  the platform hands out refer to objects of the platform (nothing of them is read, so
  they carry \<open>unit\<close>); the pointer to the event sink of this program carries the
  address of the sink in the program's heap.
\<close>

datatype 'a ptr = NULL | Ptr 'a

section \<open>Data of the monitor\<close>

text \<open>\<open>SignalMonitorContext\<close> of Utils.h.\<close>

record SignalMonitorContext =
  thresholdDrop :: ULONG
  thresholdRecover :: ULONG
  isSignalWeak :: bool
  lastQuality :: ULONG

text \<open>
  \<open>WLAN_NOTIFICATION_DATA\<close> as the callback reads it. \<open>pData\<close> is the \<open>ULONG\<close> stored
  at the start of the data buffer, which the callback reads only when \<open>dwDataSize\<close> is
  at least \<open>sizeof(ULONG) = 4\<close>.
\<close>

record WLAN_NOTIFICATION_DATA =
  NotificationSource :: DWORD
  NotificationCode :: DWORD
  dwDataSize :: DWORD
  pData :: ULONG

text \<open>\<open>CNetworkListManagerEvents\<close>: the event sink, with its reference count.\<close>

record CNetworkListManagerEvents =
  m_lRef :: int

text \<open>
  What the program does to the outside, in order: the calls into the platform, the
  creation and release of the event sink, and the messages posted to the main thread.
  \<open>PostThreadMessage\<close> carries the thread, the message identifier, \<open>wParam\<close>
  (unsigned) and \<open>lParam\<close> (signed). Console output is not modelled.
\<close>

datatype action =
    CoInitializeEx
  | CoCreateInstance
  | QueryInterface_IConnectionPointContainer
  | FindConnectionPoint
  | new_CNetworkListManagerEvents
  | Advise
  | GetConnectivity
  | Unadvise DWORD
  | g_pNetEvents_Release
  | g_pConnectPoint_Release
  | g_pCPContainer_Release
  | g_pNetworkListManager_Release
  | CoUninitialize
  | WlanOpenHandle
  | WlanEnumInterfaces
  | WlanQueryInterface
  | WlanFreeMemory
  | WlanRegisterNotification "unit ptr" DWORD
  | WlanCloseHandle "unit ptr"
  | PostThreadMessage DWORD UINT nat int

text \<open>
  The state: the globals of NetworkMonitor.cpp, the heap of event sinks (an address
  with no entry holds no live object), and the platform's side of the two
  registrations: \<open>advised\<close> is the connection point's live advisory connection (its
  cookie and the sink it holds a reference to), \<open>wlan_registered\<close> tells whether the
  wireless callback is registered. \<open>trace\<close> lists the actions so far.
\<close>

record world =
  g_mainThreadId :: DWORD
  g_networkConnected :: bool
  g_pNetworkListManager :: "unit ptr"
  g_pCPContainer :: "unit ptr"
  g_pConnectPoint :: "unit ptr"
  g_pNetEvents :: "nat ptr"
  g_dwCookie :: DWORD
  g_hClient :: "unit ptr"
  monitorCtx :: SignalMonitorContext
  heap :: "nat \<rightharpoonup> CNetworkListManagerEvents"
  next_addr :: nat
  advised :: "(DWORD \<times> nat) option"
  wlan_registered :: bool
  trace :: "action list"

text \<open>The globals as their initialisers set them, before \<open>main\<close> runs.\<close>

definition initial_world :: world where
  "initial_world =
     \<lparr> g_mainThreadId = 0, g_networkConnected = False,
       g_pNetworkListManager = NULL, g_pCPContainer = NULL, g_pConnectPoint = NULL,
       g_pNetEvents = NULL, g_dwCookie = 0, g_hClient = NULL,
       monitorCtx = \<lparr> thresholdDrop = 40, thresholdRecover = 50,
                       isSignalWeak = False, lastQuality = 100 \<rparr>,
       heap = Map.empty, next_addr = 1, advised = None, wlan_registered = False,
       trace = [] \<rparr>"

definition emit :: "action \<Rightarrow> world \<Rightarrow> world" where
  "emit a w = w\<lparr>trace := trace w @ [a]\<rparr>"

text \<open>The messages posted to the main thread, among the actions of a trace.\<close>

fun is_post :: "action \<Rightarrow> bool" where
  "is_post (PostThreadMessage t m wp lp) = True"
| "is_post _ = False"

definition posted :: "world \<Rightarrow> action list" where
  "posted w = filter is_post (trace w)"

section \<open>Connectivity subscriber\<close>

text \<open>
  \<open>PrintConnectivity\<close>: besides printing, it keeps \<open>g_networkConnected\<close>. The flag is
  cleared only by the value \<open>NLM_CONNECTIVITY_DISCONNECTED\<close> and set by either
  Internet flag.
\<close>

definition PrintConnectivity :: "NLM_CONNECTIVITY \<Rightarrow> world \<Rightarrow> world" where
  "PrintConnectivity connectivity w =
     (if connectivity = NLM_CONNECTIVITY_DISCONNECTED then w\<lparr>g_networkConnected := False\<rparr>
      else
        let w1 = (if connectivity AND NLM_CONNECTIVITY_IPV4_INTERNET \<noteq> 0
                  then w\<lparr>g_networkConnected := True\<rparr> else w)
        in (if connectivity AND NLM_CONNECTIVITY_IPV6_INTERNET \<noteq> 0
            then w1\<lparr>g_networkConnected := True\<rparr> else w1))"

text \<open>The local \<open>hasInternet\<close> of \<open>sendNetworkStatusMessage\<close>.\<close>

definition hasInternet :: "NLM_CONNECTIVITY \<Rightarrow> bool" where
  "hasInternet connectivity =
     (connectivity AND NLM_CONNECTIVITY_IPV4_INTERNET \<noteq> 0
      \<or> connectivity AND NLM_CONNECTIVITY_IPV6_INTERNET \<noteq> 0)"

definition sendNetworkStatusMessage :: "NLM_CONNECTIVITY \<Rightarrow> world \<Rightarrow> world" where
  "sendNetworkStatusMessage connectivity w =
     (if hasInternet connectivity
      then emit (PostThreadMessage (g_mainThreadId w) WM_NETWORK_STATUS_CHANGE 1 0) w
      else emit (PostThreadMessage (g_mainThreadId w) WM_NETWORK_STATUS_CHANGE 0 0) w)"

text \<open>\<open>CNetworkListManagerEvents::ConnectivityChanged\<close>, the platform's callback.\<close>

definition ConnectivityChanged :: "NLM_CONNECTIVITY \<Rightarrow> world \<Rightarrow> world" where
  "ConnectivityChanged newConnectivity w =
     sendNetworkStatusMessage newConnectivity (PrintConnectivity newConnectivity w)"

subsection \<open>The event sink's reference count\<close>

text \<open>The constructor sets the count to 1.\<close>

definition CNetworkListManagerEvents_new :: CNetworkListManagerEvents where
  "CNetworkListManagerEvents_new = \<lparr> m_lRef = 1 \<rparr>"

definition AddRef :: "CNetworkListManagerEvents \<Rightarrow> CNetworkListManagerEvents" where
  "AddRef this = this\<lparr>m_lRef := m_lRef this + 1\<rparr>"

text \<open>\<open>Release\<close>: \<open>delete this\<close> when the count reaches 0 (no object is left).\<close>

definition Release :: "CNetworkListManagerEvents \<Rightarrow> CNetworkListManagerEvents option" where
  "Release this =
     (let lRef = m_lRef this - 1
      in if lRef = 0 then None else Some (this\<lparr>m_lRef := lRef\<rparr>))"

text \<open>
  A call through a pointer to a sink that has been deleted is a use after free: the
  model stops there with a fault.
\<close>

datatype fault = use_after_free

definition Release_at :: "nat \<Rightarrow> world \<Rightarrow> fault + world" where
  "Release_at a w =
     (case heap w a of
        None \<Rightarrow> Inl use_after_free
      | Some this \<Rightarrow> Inr (w\<lparr>heap := (heap w)(a := Release this)\<rparr>))"

definition and_then :: "fault + world \<Rightarrow> (world \<Rightarrow> fault + world) \<Rightarrow> fault + world" where
  "and_then r f = (case r of Inl e \<Rightarrow> Inl e | Inr w \<Rightarrow> f w)"

subsection \<open>Start\<close>

text \<open>
  What the platform answers to the calls of \<open>StartNetworkMonitor\<close>. A COM call that
  succeeds leaves a non-null interface pointer, one that fails leaves \<open>NULL\<close>.
\<close>

record NLM_platform =
  hr_CoInitializeEx :: HRESULT
  hr_CoCreateInstance :: HRESULT
  hr_QueryInterface :: HRESULT
  hr_FindConnectionPoint :: HRESULT
  hr_Advise :: HRESULT
  cookie :: DWORD
  hr_GetConnectivity :: HRESULT
  currentConnectivity :: NLM_CONNECTIVITY

definition out_ptr :: "HRESULT \<Rightarrow> unit ptr" where
  "out_ptr hr = (if SUCCEEDED hr then Ptr () else NULL)"

text \<open>
  \<open>IConnectionPoint::Advise\<close> of the platform: when it succeeds, it has asked the sink
  for its events interface (the sink's \<open>QueryInterface\<close>, which calls \<open>AddRef\<close>), holds
  that reference, and has written the cookie. When it fails it holds nothing.
\<close>

definition IConnectionPoint_Advise :: "NLM_platform \<Rightarrow> nat \<Rightarrow> world \<Rightarrow> world" where
  "IConnectionPoint_Advise p a w =
     (let w1 = emit Advise w
      in if SUCCEEDED (hr_Advise p)
         then w1\<lparr>heap := (heap w1)(a := map_option AddRef (heap w1 a)),
                 advised := Some (cookie p, a), g_dwCookie := cookie p\<rparr>
         else w1)"

definition StartNetworkMonitor :: "NLM_platform \<Rightarrow> world \<Rightarrow> int \<times> world" where
  "StartNetworkMonitor p w0 =
     (let w1 = emit CoInitializeEx w0
      in if FAILED (hr_CoInitializeEx p) then (1, w1)
      else
        let w2 = (emit CoCreateInstance w1)
                   \<lparr>g_pNetworkListManager := out_ptr (hr_CoCreateInstance p)\<rparr>
        in if FAILED (hr_CoCreateInstance p) then (1, emit CoUninitialize w2)
        else
          let w3 = (emit QueryInterface_IConnectionPointContainer w2)
                     \<lparr>g_pCPContainer := out_ptr (hr_QueryInterface p)\<rparr>;
              (hr, w4) =
                (if SUCCEEDED (hr_QueryInterface p)
                 then (hr_FindConnectionPoint p,
                       (emit FindConnectionPoint w3)
                         \<lparr>g_pConnectPoint := out_ptr (hr_FindConnectionPoint p)\<rparr>)
                 else (hr_QueryInterface p, w3))
          in if SUCCEEDED hr
             then
               let a = next_addr w4;
                   w5 = (emit new_CNetworkListManagerEvents w4)
                          \<lparr>g_pNetEvents := Ptr a,
                           heap := (heap w4)(a \<mapsto> CNetworkListManagerEvents_new),
                           next_addr := a + 1\<rparr>;
                   w6 = IConnectionPoint_Advise p a w5
               in if SUCCEEDED (hr_Advise p)
                  then
                    let w7 = emit GetConnectivity w6
                    in if SUCCEEDED (hr_GetConnectivity p)
                       then
                         let w8 = PrintConnectivity (currentConnectivity p) w7
                         in if currentConnectivity p = NLM_CONNECTIVITY_DISCONNECTED
                            then (0, emit (PostThreadMessage (g_mainThreadId w8)
                                             WM_NETWORK_STATUS_CHANGE 0 0) w8)
                            else (0, w8)
                       else (0, w7)
                  else (0, w6)
             else (0, w4))"

subsection \<open>Stop\<close>

text \<open>
  \<open>IConnectionPoint::Unadvise\<close> of the platform: it ends the advisory connection with
  that cookie, releasing the reference to the sink it held; with any other cookie it
  fails and does nothing (the code ignores the result).
\<close>

definition IConnectionPoint_Unadvise :: "DWORD \<Rightarrow> world \<Rightarrow> fault + world" where
  "IConnectionPoint_Unadvise c w =
     (let w1 = emit (Unadvise c) w
      in case advised w1 of
           None \<Rightarrow> Inr w1
         | Some (c', a) \<Rightarrow>
             if c' = c then Release_at a (w1\<lparr>advised := None\<rparr>) else Inr w1)"

text \<open>\<open>SafeRelease\<close> of Utils.h, on an interface pointer of the platform.\<close>

definition SafeRelease :: "action \<Rightarrow> unit ptr \<Rightarrow> world \<Rightarrow> unit ptr \<times> world" where
  "SafeRelease release ppT w =
     (if ppT \<noteq> NULL then (NULL, emit release w) else (ppT, w))"

text \<open>
  \<open>StopNetworkMonitor\<close>. \<open>g_pNetEvents\<close> is released when it is not null, and keeps
  its value afterwards; the three interface pointers go through \<open>SafeRelease\<close>, which
  resets them; \<open>CoUninitialize\<close> is called in every case.
\<close>

definition StopNetworkMonitor :: "world \<Rightarrow> fault + world" where
  "StopNetworkMonitor w =
     and_then
       (if g_pConnectPoint w \<noteq> NULL then IConnectionPoint_Unadvise (g_dwCookie w) w
        else Inr w)
       (\<lambda>w1.
          and_then
            (case g_pNetEvents w1 of
               NULL \<Rightarrow> Inr w1
             | Ptr a \<Rightarrow> Release_at a (emit g_pNetEvents_Release w1))
            (\<lambda>w2. Inr (
               let (p3, w3) = SafeRelease g_pConnectPoint_Release (g_pConnectPoint w2) w2;
                   w3 = w3\<lparr>g_pConnectPoint := p3\<rparr>;
                   (p4, w4) = SafeRelease g_pCPContainer_Release (g_pCPContainer w3) w3;
                   w4 = w4\<lparr>g_pCPContainer := p4\<rparr>;
                   (p5, w5) =
                     SafeRelease g_pNetworkListManager_Release (g_pNetworkListManager w4) w4;
                   w5 = w5\<lparr>g_pNetworkListManager := p5\<rparr>
               in emit CoUninitialize w5)))"

section \<open>Wireless signal subscriber\<close>

definition sendWlanStatusMessage :: "ULONG \<Rightarrow> int \<Rightarrow> world \<Rightarrow> world" where
  "sendWlanStatusMessage quality rssi w =
     emit (PostThreadMessage (g_mainThreadId w) WM_WIFI_SIGNAL_CHANGE (unat quality) rssi) w"

text \<open>
  \<open>WlanNotificationCallback\<close>. \<open>pContext\<close> is null or points to \<open>monitorCtx\<close>, the
  only context the program registers. Only a notification of the MSM source with the
  signal-quality code and at least four bytes of data changes anything; the other
  cases print at most.
\<close>

definition WlanNotificationCallback ::
    "WLAN_NOTIFICATION_DATA \<Rightarrow> unit ptr \<Rightarrow> world \<Rightarrow> world" where
  "WlanNotificationCallback pNotificationData pContext w =
     (if pContext = NULL then w
      else if NotificationSource pNotificationData = WLAN_NOTIFICATION_SOURCE_MSM
      then
        if NotificationCode pNotificationData = wlan_notification_msm_signal_quality_change
        then
          if dwDataSize pNotificationData \<ge> 4
          then
            let currentQuality = pData pNotificationData;
                currentRSSI = QualityToRSSI currentQuality;
                pMonitor = monitorCtx w;
                w1 =
                  (if \<not> isSignalWeak pMonitor \<and> currentQuality \<le> thresholdDrop pMonitor
                   then sendWlanStatusMessage currentQuality currentRSSI
                          (w\<lparr>monitorCtx := pMonitor\<lparr>isSignalWeak := True\<rparr>\<rparr>)
                   else if isSignalWeak pMonitor \<and> currentQuality \<ge> thresholdRecover pMonitor
                   then sendWlanStatusMessage currentQuality currentRSSI
                          (w\<lparr>monitorCtx := pMonitor\<lparr>isSignalWeak := False\<rparr>\<rparr>)
                   else w)
            in w1\<lparr>monitorCtx := (monitorCtx w1)\<lparr>lastQuality := currentQuality\<rparr>\<rparr>
          else w
        else w
      else w)"

text \<open>What the platform answers to the calls of \<open>StartWlanMonitor\<close>.\<close>

record WLAN_platform =
  r_WlanOpenHandle :: DWORD
  r_WlanEnumInterfaces :: DWORD
  dwNumberOfItems :: DWORD
  r_WlanQueryInterface :: DWORD
  isState :: WLAN_INTERFACE_STATE
  wlanSignalQuality :: ULONG
  r_WlanRegisterNotification :: DWORD

text \<open>
  \<open>StartWlanMonitor\<close>. The thresholds are read from \<open>monitorCtx\<close> as they stand;
  nothing compares them with each other. A handle that fails to open leaves
  \<open>g_hClient\<close> as it was.
\<close>

definition StartWlanMonitor :: "WLAN_platform \<Rightarrow> world \<Rightarrow> int \<times> world" where
  "StartWlanMonitor p w0 =
     (let w1 = (emit WlanOpenHandle w0)
                 \<lparr>g_hClient :=
                    (if r_WlanOpenHandle p = ERROR_SUCCESS then Ptr () else g_hClient w0)\<rparr>
      in if r_WlanOpenHandle p \<noteq> ERROR_SUCCESS then (1, w1)
      else
        let w2 = emit WlanEnumInterfaces w1;
            w3 =
              (if r_WlanEnumInterfaces p = ERROR_SUCCESS \<and> dwNumberOfItems p > 0
               then
                 let w2a = emit WlanQueryInterface w2;
                     w2b =
                       (if r_WlanQueryInterface p = ERROR_SUCCESS
                        then
                          let w2c =
                                (if isState p = wlan_interface_state_connected
                                 then
                                   let startQuality = wlanSignalQuality p;
                                       ctx = monitorCtx w2a;
                                       ctx1 =
                                         (if startQuality \<le> thresholdDrop ctx
                                          then ctx\<lparr>isSignalWeak := True\<rparr>
                                          else ctx\<lparr>isSignalWeak := False\<rparr>)
                                   in w2a\<lparr>monitorCtx := ctx1\<lparr>lastQuality := startQuality\<rparr>\<rparr>
                                 else w2a)
                          in emit WlanFreeMemory w2c
                        else w2a)
                 in emit WlanFreeMemory w2b
               else w2);
            w4 = emit (WlanRegisterNotification (g_hClient w3) WLAN_NOTIFICATION_SOURCE_MSM) w3
        in if r_WlanRegisterNotification p \<noteq> ERROR_SUCCESS
           then (1, emit (WlanCloseHandle (g_hClient w4)) w4)
           else (0, w4\<lparr>wlan_registered := True\<rparr>))"

text \<open>
  \<open>StopWlanMonitor\<close>: both calls are made whatever \<open>g_hClient\<close> holds, their results
  are ignored, and \<open>g_hClient\<close> keeps its value.
\<close>

definition StopWlanMonitor :: "world \<Rightarrow> world" where
  "StopWlanMonitor w =
     (let w1 = (emit (WlanRegisterNotification (g_hClient w) WLAN_NOTIFICATION_SOURCE_NONE) w)
                 \<lparr>wlan_registered := False\<rparr>
      in emit (WlanCloseHandle (g_hClient w1)) w1)"

section \<open>Process lifecycle\<close>

text \<open>\<open>OnExit\<close>; the last two calls of \<open>main\<close> are the same two.\<close>

definition OnExit :: "world \<Rightarrow> fault + world" where
  "OnExit w = and_then (StopNetworkMonitor w) (\<lambda>w1. Inr (StopWlanMonitor w1))"

text \<open>
  A notification the platform delivers while \<open>main\<close> waits in its message loop. The
  platform calls a callback only while its registration stands.
\<close>

datatype notification =
    Connectivity NLM_CONNECTIVITY
  | Wlan WLAN_NOTIFICATION_DATA

fun deliver :: "notification \<Rightarrow> world \<Rightarrow> world" where
  "deliver (Connectivity c) w =
     (if advised w \<noteq> None then ConnectivityChanged c w else w)"
| "deliver (Wlan n) w =
     (if wlan_registered w then WlanNotificationCallback n (Ptr ()) w else w)"

text \<open>
  \<open>main\<close>, for a run whose message loop ends: the thread identifier, the two starts
  (their results are not looked at), the notifications delivered while the loop waits,
  the two stops.
\<close>

definition main ::
    "DWORD \<Rightarrow> NLM_platform \<Rightarrow> WLAN_platform \<Rightarrow> notification list \<Rightarrow> fault + world" where
  "main tid pn pw ns =
     (let w1 = initial_world\<lparr>g_mainThreadId := tid\<rparr>;
          w2 = snd (StartNetworkMonitor pn w1);
          w3 = snd (StartWlanMonitor pw w2);
          w4 = fold deliver ns w3
      in and_then (StopNetworkMonitor w4) (\<lambda>w5. Inr (StopWlanMonitor w5)))"

section \<open>Concrete inputs and observations\<close>

text \<open>Two \<open>HRESULT\<close> values of the platform: success and a failure.\<close>

definition S_OK :: HRESULT where "S_OK = 0"
definition E_FAIL :: HRESULT where "E_FAIL = 0x80004005"

text \<open>A platform on which every call of \<open>StartNetworkMonitor\<close> succeeds.\<close>

definition NLM_succeeds :: "NLM_CONNECTIVITY \<Rightarrow> NLM_platform" where
  "NLM_succeeds c =
     \<lparr> hr_CoInitializeEx = S_OK, hr_CoCreateInstance = S_OK, hr_QueryInterface = S_OK,
       hr_FindConnectionPoint = S_OK, hr_Advise = S_OK, cookie = 1,
       hr_GetConnectivity = S_OK, currentConnectivity = c \<rparr>"

text \<open>
  A platform on which every call of \<open>StartWlanMonitor\<close> succeeds, with one connected
  interface of the given signal quality.
\<close>

definition WLAN_succeeds :: "ULONG \<Rightarrow> WLAN_platform" where
  "WLAN_succeeds q =
     \<lparr> r_WlanOpenHandle = ERROR_SUCCESS, r_WlanEnumInterfaces = ERROR_SUCCESS,
       dwNumberOfItems = 1, r_WlanQueryInterface = ERROR_SUCCESS,
       isState = wlan_interface_state_connected, wlanSignalQuality = q,
       r_WlanRegisterNotification = ERROR_SUCCESS \<rparr>"

text \<open>The state after both starts of \<open>main\<close> have succeeded.\<close>

definition started_world :: world where
  "started_world =
     snd (StartWlanMonitor (WLAN_succeeds 60)
       (snd (StartNetworkMonitor (NLM_succeeds NLM_CONNECTIVITY_IPV4_INTERNET)
          initial_world)))"

text \<open>An MSM signal-quality notification carrying the quality \<open>q\<close>.\<close>

definition quality_notification :: "ULONG \<Rightarrow> WLAN_NOTIFICATION_DATA" where
  "quality_notification q =
     \<lparr> NotificationSource = WLAN_NOTIFICATION_SOURCE_MSM,
       NotificationCode = wlan_notification_msm_signal_quality_change,
       dwDataSize = 4, pData = q \<rparr>"

text \<open>
  The message \<open>sendWlanStatusMessage\<close> posts for the quality \<open>q\<close>: the quality in
  \<open>wParam\<close> and its RSSI in \<open>lParam\<close>. The message has no field for the direction of
  the change; the direction is the value \<open>isSignalWeak\<close> is set to.
\<close>

definition SignalChanged :: "world \<Rightarrow> ULONG \<Rightarrow> action" where
  "SignalChanged w q =
     PostThreadMessage (g_mainThreadId w) WM_WIFI_SIGNAL_CHANGE (unat q) (QualityToRSSI q)"

text \<open>The message \<open>sendNetworkStatusMessage\<close> posts for a status.\<close>

definition StatusChanged :: "world \<Rightarrow> bool \<Rightarrow> action" where
  "StatusChanged w status =
     PostThreadMessage (g_mainThreadId w) WM_NETWORK_STATUS_CHANGE (if status then 1 else 0) 0"

text \<open>
  Feeding the callback a sequence of qualities: for each notification in turn, the
  actions the callback added and the value of \<open>isSignalWeak\<close> after it.
\<close>

fun feed :: "ULONG list \<Rightarrow> world \<Rightarrow> (action list \<times> bool) list" where
  "feed [] w = []"
| "feed (q # qs) w =
     (let w' = WlanNotificationCallback (quality_notification q) (Ptr ()) w
      in (drop (length (trace w)) (trace w'), isSignalWeak (monitorCtx w')) # feed qs w')"

text \<open>Delivering a sequence of connectivity notifications to the sink.\<close>

definition notify_all :: "NLM_CONNECTIVITY list \<Rightarrow> world \<Rightarrow> world" where
  "notify_all cs w = fold ConnectivityChanged cs w"

text \<open>The actions of \<open>OnExit\<close> from a state, when it runs to its end.\<close>

definition OnExit_actions :: "world \<Rightarrow> action list option" where
  "OnExit_actions w =
     (case OnExit w of
        Inl e \<Rightarrow> None
      | Inr w' \<Rightarrow> Some (drop (length (trace w)) (trace w')))"

text \<open>\<open>precedes a b xs\<close>: \<open>a\<close> occurs in \<open>xs\<close>, and \<open>b\<close> occurs after its first occurrence.\<close>

fun precedes :: "action \<Rightarrow> action \<Rightarrow> action list \<Rightarrow> bool" where
  "precedes a b [] = False"
| "precedes a b (x # xs) = (if x = a then b \<in> set xs else precedes a b xs)"

text \<open>
  The order of shutdown the specification states, for the registration cookie \<open>c\<close>
  and the wireless handle \<open>h\<close>: the wireless subscriber is unregistered, then the
  connectivity subscriber, then the subscriber object is released, then the
  intermediate interface references, then the root object, and the runtime context is
  torn down last.
\<close>

definition spec_stop_order :: "DWORD \<Rightarrow> unit ptr \<Rightarrow> action list \<Rightarrow> bool" where
  "spec_stop_order c h xs =
     (precedes (WlanRegisterNotification h WLAN_NOTIFICATION_SOURCE_NONE) (Unadvise c) xs
      \<and> precedes (Unadvise c) g_pNetEvents_Release xs
      \<and> precedes g_pNetEvents_Release g_pConnectPoint_Release xs
      \<and> precedes g_pConnectPoint_Release g_pCPContainer_Release xs
      \<and> precedes g_pCPContainer_Release g_pNetworkListManager_Release xs
      \<and> precedes g_pNetworkListManager_Release CoUninitialize xs
      \<and> xs \<noteq> [] \<and> last xs = CoUninitialize)"

text \<open>
  The order \<open>OnExit\<close> follows: the connectivity side first, in the reverse of its own
  order of acquisition and ending with the runtime context; the wireless side after it.
\<close>

definition code_stop_order :: "DWORD \<Rightarrow> unit ptr \<Rightarrow> action list" where
  "code_stop_order c h =
     [Unadvise c, g_pNetEvents_Release, g_pConnectPoint_Release, g_pCPContainer_Release,
      g_pNetworkListManager_Release, CoUninitialize,
      WlanRegisterNotification h WLAN_NOTIFICATION_SOURCE_NONE, WlanCloseHandle h]"

text \<open>A platform on which only \<open>Advise\<close> fails.\<close>

definition NLM_Advise_fails :: NLM_platform where
  "NLM_Advise_fails =
     (NLM_succeeds NLM_CONNECTIVITY_IPV4_INTERNET)\<lparr>hr_Advise := E_FAIL\<rparr>"

text \<open>The state after \<open>StartNetworkMonitor\<close> alone has succeeded.\<close>

definition net_started_world :: world where
  "net_started_world =
     snd (StartNetworkMonitor (NLM_succeeds NLM_CONNECTIVITY_IPV4_INTERNET) initial_world)"

text \<open>
  The state in which a first \<open>StopNetworkMonitor\<close> leaves \<open>started_world\<close>: the three
  interface pointers are null, the sink is deleted and the advisory connection is
  gone, and \<open>g_pNetEvents\<close> still holds the address of the deleted sink.
\<close>

definition stopped_world :: world where
  "stopped_world =
     started_world\<lparr>g_pNetworkListManager := NULL, g_pCPContainer := NULL,
       g_pConnectPoint := NULL, heap := Map.empty, advised := None,
       trace := trace started_world @
          [Unadvise 1, g_pNetEvents_Release, g_pConnectPoint_Release, g_pCPContainer_Release,
           g_pNetworkListManager_Release, CoUninitialize]\<rparr>"

text \<open>The initial state with the two thresholds exchanged: recover below drop.\<close>

definition inverted_world :: world where
  "inverted_world =
     initial_world\<lparr>monitorCtx := \<lparr> thresholdDrop = 50, thresholdRecover = 40,
                                     isSignalWeak = False, lastQuality = 100 \<rparr>\<rparr>"

text \<open>Two states with the same global pointers, handle and cookie.\<close>

definition same_globals :: "world \<Rightarrow> world \<Rightarrow> bool" where
  "same_globals w w' =
     (g_pNetEvents w' = g_pNetEvents w \<and> g_pConnectPoint w' = g_pConnectPoint w
      \<and> g_pCPContainer w' = g_pCPContainer w
      \<and> g_pNetworkListManager w' = g_pNetworkListManager w
      \<and> g_hClient w' = g_hClient w \<and> g_dwCookie w' = g_dwCookie w)"

section \<open>Properties of the conversion\<close>

lemma double_to_int_half: "double_to_int (of_nat n / 2) = int (n div 2)"
proof -
  have "(0::rat) \<le> of_nat n / 2" by simp
  then have "double_to_int (of_nat n / 2) = \<lfloor>(of_nat n :: rat) / 2\<rfloor>"
    by (simp add: double_to_int_def)
  also have "\<dots> = \<lfloor>(of_int (int n) :: rat) / of_int 2\<rfloor>" by simp
  also have "\<dots> = int n div 2" by (rule floor_divide_of_int_eq)
  also have "\<dots> = int (n div 2)" by (simp add: zdiv_int)
  finally show ?thesis .
qed

lemma floor_real_half: "\<lfloor>(of_nat n :: real) / 2\<rfloor> = int (n div 2)"
proof -
  have "\<lfloor>(of_nat n :: real) / 2\<rfloor> = \<lfloor>(of_int (int n) :: real) / of_int 2\<rfloor>" by simp
  also have "\<dots> = int n div 2" by (rule floor_divide_of_int_eq)
  also have "\<dots> = int (n div 2)" by (simp add: zdiv_int)
  finally show ?thesis .
qed

lemma QualityToRSSI_nat:
  "QualityToRSSI q =
     (if unat q = 0 then - 100 else if 100 \<le> unat q then - 50 else int (unat q div 2) - 100)"
proof -
  have z: "(q = 0) = (unat q = 0)" by (simp add: unat_eq_0)
  have h: "(100 \<le> q) = (100 \<le> unat q)" by (simp add: word_le_nat_alt)
  show ?thesis
    unfolding QualityToRSSI_def z h double_to_int_half by simp
qed

text \<open>
  C8. For every quality value \<open>q\<close>, the code's \<open>QualityToRSSI\<close> is the specified
  \<open>toRssi\<close>: \<open>-100\<close> when \<open>q = 0\<close>, \<open>-50\<close> when \<open>q \<ge> 100\<close>, and
  \<open>floor (q / 2) - 100\<close> otherwise; in particular \<open>toRssi(0) = -100\<close>,
  \<open>toRssi(100) = -50\<close> and \<open>toRssi(40) = -80\<close>.
\<close>

theorem C8_QualityToRSSI_is_toRssi:
  "QualityToRSSI q = toRssi (unat q)
   \<and> QualityToRSSI q =
       (if q = 0 then - 100 else if q \<ge> 100 then - 50
        else \<lfloor>(of_nat (unat q) :: real) / 2\<rfloor> - 100)
   \<and> QualityToRSSI 0 = - 100 \<and> QualityToRSSI 100 = - 50 \<and> QualityToRSSI 40 = - 80"
proof -
  have a: "QualityToRSSI q = toRssi (unat q)"
    unfolding QualityToRSSI_nat toRssi_def floor_real_half by simp
  have z: "(q = 0) = (unat q = 0)" by (simp add: unat_eq_0)
  have h: "(100 \<le> q) = (100 \<le> unat q)" by (simp add: word_le_nat_alt)
  have b: "QualityToRSSI q =
       (if q = 0 then - 100 else if q \<ge> 100 then - 50
        else \<lfloor>(of_nat (unat q) :: real) / 2\<rfloor> - 100)"
    unfolding QualityToRSSI_nat z h floor_real_half by simp
  have c: "QualityToRSSI 0 = - 100" by (simp add: QualityToRSSI_nat)
  have d: "QualityToRSSI 100 = - 50" by (simp add: QualityToRSSI_nat)
  have e: "QualityToRSSI 40 = - 80" by (simp add: QualityToRSSI_nat)
  from a b c d e show ?thesis by blast
qed

text \<open>
  C10. For every unsigned quality value \<open>q\<close>, \<open>QualityToRSSI q\<close> lies in
  \<open>[-100, -50]\<close>; \<open>QualityToRSSI\<close> is monotone non-decreasing; and the middle
  branch's formula agrees with the first branch at \<open>q = 0\<close> and with the second at
  \<open>q = 100\<close>.
\<close>

theorem C10_QualityToRSSI_range_monotone:
  "- 100 \<le> QualityToRSSI q \<and> QualityToRSSI q \<le> - 50
   \<and> (q1 \<le> q2 \<longrightarrow> QualityToRSSI q1 \<le> QualityToRSSI q2)
   \<and> double_to_int (of_nat (unat (0 :: ULONG)) / 2) - 100 = QualityToRSSI 0
   \<and> double_to_int (of_nat (unat (100 :: ULONG)) / 2) - 100 = QualityToRSSI 100"
proof -
  have r: "- 100 \<le> QualityToRSSI q \<and> QualityToRSSI q \<le> - 50"
    unfolding QualityToRSSI_nat by auto
  have m: "q1 \<le> q2 \<longrightarrow> QualityToRSSI q1 \<le> QualityToRSSI q2"
  proof
    assume "q1 \<le> q2"
    then have le: "unat q1 \<le> unat q2" by (simp add: word_le_nat_alt)
    then have "unat q1 div 2 \<le> unat q2 div 2" by (rule div_le_mono)
    with le show "QualityToRSSI q1 \<le> QualityToRSSI q2"
      unfolding QualityToRSSI_nat by auto
  qed
  have b0: "double_to_int (of_nat (unat (0 :: ULONG)) / 2) - 100 = QualityToRSSI 0"
    unfolding double_to_int_half by (simp add: QualityToRSSI_nat)
  have b1: "double_to_int (of_nat (unat (100 :: ULONG)) / 2) - 100 = QualityToRSSI 100"
    unfolding double_to_int_half by (simp add: QualityToRSSI_nat)
  from r m b0 b1 show ?thesis by blast
qed

theorem C10_QualityToRSSI_range_monotone_witness:
  "(37 :: ULONG) \<le> 64 \<and> QualityToRSSI 37 \<le> QualityToRSSI 64
   \<and> QualityToRSSI 37 = - 82 \<and> QualityToRSSI 64 = - 68"
proof -
  have h: "(37 :: ULONG) \<le> 64" by simp
  have "QualityToRSSI 37 \<le> QualityToRSSI 64"
    using C10_QualityToRSSI_range_monotone [of 0 37 64] h by blast
  moreover have "QualityToRSSI 37 = - 82" by (simp add: QualityToRSSI_nat)
  moreover have "QualityToRSSI 64 = - 68" by (simp add: QualityToRSSI_nat)
  ultimately show ?thesis using h by blast
qed

section \<open>The hysteresis state machine\<close>

text \<open>
  The three branches of the callback on an MSM signal-quality notification with at
  least four bytes of data: the drop transition, the recover transition, and the rest.
\<close>

lemma callback_drop:
  assumes "pContext \<noteq> NULL"
    and "NotificationSource n = WLAN_NOTIFICATION_SOURCE_MSM"
    and "NotificationCode n = wlan_notification_msm_signal_quality_change"
    and "4 \<le> dwDataSize n"
    and "\<not> isSignalWeak (monitorCtx w)" and "pData n \<le> thresholdDrop (monitorCtx w)"
  shows "WlanNotificationCallback n pContext w =
           w\<lparr>monitorCtx := (monitorCtx w)\<lparr>isSignalWeak := True, lastQuality := pData n\<rparr>,
             trace := trace w @ [SignalChanged w (pData n)]\<rparr>"
  using assms
  by (simp add: WlanNotificationCallback_def sendWlanStatusMessage_def emit_def
      SignalChanged_def Let_def)

lemma callback_recover:
  assumes "pContext \<noteq> NULL"
    and "NotificationSource n = WLAN_NOTIFICATION_SOURCE_MSM"
    and "NotificationCode n = wlan_notification_msm_signal_quality_change"
    and "4 \<le> dwDataSize n"
    and "isSignalWeak (monitorCtx w)" and "thresholdRecover (monitorCtx w) \<le> pData n"
  shows "WlanNotificationCallback n pContext w =
           w\<lparr>monitorCtx := (monitorCtx w)\<lparr>isSignalWeak := False, lastQuality := pData n\<rparr>,
             trace := trace w @ [SignalChanged w (pData n)]\<rparr>"
  using assms
  by (simp add: WlanNotificationCallback_def sendWlanStatusMessage_def emit_def
      SignalChanged_def Let_def)

lemma callback_dead_zone:
  assumes "pContext \<noteq> NULL"
    and "NotificationSource n = WLAN_NOTIFICATION_SOURCE_MSM"
    and "NotificationCode n = wlan_notification_msm_signal_quality_change"
    and "4 \<le> dwDataSize n"
    and "isSignalWeak (monitorCtx w) \<or> \<not> pData n \<le> thresholdDrop (monitorCtx w)"
    and "\<not> isSignalWeak (monitorCtx w) \<or> \<not> thresholdRecover (monitorCtx w) \<le> pData n"
  shows "WlanNotificationCallback n pContext w =
           w\<lparr>monitorCtx := (monitorCtx w)\<lparr>lastQuality := pData n\<rparr>\<rparr>"
  using assms
  by (auto simp add: WlanNotificationCallback_def Let_def)

text \<open>
  Every other notification leaves the state as it is: another source such as ACM, another
  MSM code such as connected or disconnected, too little data, or a null context.
\<close>

lemma callback_ignored:
  assumes "pContext = NULL \<or> NotificationSource n \<noteq> WLAN_NOTIFICATION_SOURCE_MSM
     \<or> NotificationCode n \<noteq> wlan_notification_msm_signal_quality_change
     \<or> dwDataSize n < 4"
  shows "WlanNotificationCallback n pContext w = w"
  using assms by (auto simp add: WlanNotificationCallback_def Let_def)

lemma callback_ignores_other_sources_and_codes:
  "WlanNotificationCallback (n\<lparr>NotificationSource := WLAN_NOTIFICATION_SOURCE_ACM\<rparr>) p w = w"
  "WlanNotificationCallback (n\<lparr>NotificationCode := wlan_notification_msm_connected\<rparr>) p w = w"
  "WlanNotificationCallback (n\<lparr>NotificationCode := wlan_notification_msm_disconnected\<rparr>) p w = w"
  by (rule callback_ignored,
      simp add: WLAN_NOTIFICATION_SOURCE_ACM_def WLAN_NOTIFICATION_SOURCE_MSM_def
        wlan_notification_msm_connected_def wlan_notification_msm_disconnected_def
        wlan_notification_msm_signal_quality_change_def)+

lemma quality_notification_simps:
  "NotificationSource (quality_notification q) = WLAN_NOTIFICATION_SOURCE_MSM"
  "NotificationCode (quality_notification q) = wlan_notification_msm_signal_quality_change"
  "4 \<le> dwDataSize (quality_notification q)"
  "pData (quality_notification q) = q"
  by (simp_all add: quality_notification_def)

lemma feed_drop:
  assumes "\<not> isSignalWeak (monitorCtx w)" and "q \<le> thresholdDrop (monitorCtx w)"
  shows "feed (q # qs) w = ([SignalChanged w q], True) #
     feed qs (w\<lparr>monitorCtx := (monitorCtx w)\<lparr>isSignalWeak := True, lastQuality := q\<rparr>,
             trace := trace w @ [SignalChanged w q]\<rparr>)"
  using callback_drop [of "Ptr ()" "quality_notification q" w] assms
  by (simp add: quality_notification_simps Let_def)

lemma feed_recover:
  assumes "isSignalWeak (monitorCtx w)" and "thresholdRecover (monitorCtx w) \<le> q"
  shows "feed (q # qs) w = ([SignalChanged w q], False) #
     feed qs (w\<lparr>monitorCtx := (monitorCtx w)\<lparr>isSignalWeak := False, lastQuality := q\<rparr>,
             trace := trace w @ [SignalChanged w q]\<rparr>)"
  using callback_recover [of "Ptr ()" "quality_notification q" w] assms
  by (simp add: quality_notification_simps Let_def)

lemma feed_dead_zone:
  assumes "isSignalWeak (monitorCtx w) \<or> \<not> q \<le> thresholdDrop (monitorCtx w)"
    and "\<not> isSignalWeak (monitorCtx w) \<or> \<not> thresholdRecover (monitorCtx w) \<le> q"
  shows "feed (q # qs) w = ([], isSignalWeak (monitorCtx w)) #
     feed qs (w\<lparr>monitorCtx := (monitorCtx w)\<lparr>lastQuality := q\<rparr>\<rparr>)"
  using callback_dead_zone [of "Ptr ()" "quality_notification q" w] assms
  by (simp add: quality_notification_simps Let_def)


lemma feed_sequence:
  assumes d: "thresholdDrop (monitorCtx w) = 40" and r: "thresholdRecover (monitorCtx w) = 50"
    and s: "\<not> isSignalWeak (monitorCtx w)"
  shows "feed [60, 45, 38, 42, 55] w =
     [([], False), ([], False), ([SignalChanged w 38], True), ([], True),
      ([SignalChanged w 55], False)]"
proof -
  define w1 where "w1 = w\<lparr>monitorCtx := (monitorCtx w)\<lparr>lastQuality := 60\<rparr>\<rparr>"
  define w2 where "w2 = w1\<lparr>monitorCtx := (monitorCtx w1)\<lparr>lastQuality := 45\<rparr>\<rparr>"
  define w3 where "w3 = w2\<lparr>monitorCtx := (monitorCtx w2)\<lparr>isSignalWeak := True, lastQuality := 38\<rparr>,
             trace := trace w2 @ [SignalChanged w2 38]\<rparr>"
  define w4 where "w4 = w3\<lparr>monitorCtx := (monitorCtx w3)\<lparr>lastQuality := 42\<rparr>\<rparr>"
  define w5 where "w5 = w4\<lparr>monitorCtx := (monitorCtx w4)\<lparr>isSignalWeak := False, lastQuality := 55\<rparr>,
             trace := trace w4 @ [SignalChanged w4 55]\<rparr>"
  have c1: "thresholdDrop (monitorCtx w1) = 40" "thresholdRecover (monitorCtx w1) = 50"
    "\<not> isSignalWeak (monitorCtx w1)" "g_mainThreadId w1 = g_mainThreadId w"
    by (simp_all add: w1_def d r s)
  have c2: "thresholdDrop (monitorCtx w2) = 40" "thresholdRecover (monitorCtx w2) = 50"
    "\<not> isSignalWeak (monitorCtx w2)" "g_mainThreadId w2 = g_mainThreadId w"
    by (simp_all add: w2_def c1)
  have c3: "thresholdDrop (monitorCtx w3) = 40" "thresholdRecover (monitorCtx w3) = 50"
    "isSignalWeak (monitorCtx w3)" "g_mainThreadId w3 = g_mainThreadId w"
    by (simp_all add: w3_def c2)
  have c4: "thresholdDrop (monitorCtx w4) = 40" "thresholdRecover (monitorCtx w4) = 50"
    "isSignalWeak (monitorCtx w4)" "g_mainThreadId w4 = g_mainThreadId w"
    by (simp_all add: w4_def c3)
  have f1: "feed [60, 45, 38, 42, 55] w = ([], False) # feed [45, 38, 42, 55] w1"
    unfolding w1_def using s by (subst feed_dead_zone) (simp_all add: d r)
  have f2: "feed [45, 38, 42, 55] w1 = ([], False) # feed [38, 42, 55] w2"
    unfolding w2_def using c1(3) by (subst feed_dead_zone) (simp_all add: c1)
  have f3: "feed [38, 42, 55] w2 = ([SignalChanged w2 38], True) # feed [42, 55] w3"
    unfolding w3_def by (subst feed_drop) (simp_all add: c2)
  have f4: "feed [42, 55] w3 = ([], True) # feed [55] w4"
    unfolding w4_def using c3(3) by (subst feed_dead_zone) (simp_all add: c3)
  have f5: "feed [55] w4 = ([SignalChanged w4 55], False) # feed [] w5"
    unfolding w5_def by (subst feed_recover) (simp_all add: c4)
  have e: "SignalChanged w2 38 = SignalChanged w 38" "SignalChanged w4 55 = SignalChanged w 55"
    by (simp_all add: SignalChanged_def c2 c4)
  show ?thesis
    unfolding f1 f2 f3 f4 f5 e by simp
qed


text \<open>
  C1. From the state \<open>\<not> isSignalWeak\<close> a signal-quality notification \<open>q\<close> posts a
  message and sets \<open>isSignalWeak\<close> exactly when \<open>q \<le> thresholdDrop\<close>; from the state
  \<open>isSignalWeak\<close> it posts a message and clears \<open>isSignalWeak\<close> exactly when
  \<open>q \<ge> thresholdRecover\<close>; otherwise nothing is posted and the state stays. With
  thresholds 40 and 50 and the initial state strong, the qualities
  \<open>[60, 45, 38, 42, 55]\<close> post exactly two messages: one at 38, which makes the
  signal weak, and one at 55, which makes it strong; 60, 45 and 42 post nothing.
\<close>

theorem C1_hysteresis:
  assumes src: "NotificationSource n = WLAN_NOTIFICATION_SOURCE_MSM"
    and code: "NotificationCode n = wlan_notification_msm_signal_quality_change"
    and size: "4 \<le> dwDataSize n"
    and w': "w' = WlanNotificationCallback n (Ptr ()) w"
    and q: "q = pData n"
  shows "(\<not> isSignalWeak (monitorCtx w) \<longrightarrow>
            (if q \<le> thresholdDrop (monitorCtx w)
             then trace w' = trace w @ [SignalChanged w q] \<and> isSignalWeak (monitorCtx w')
             else trace w' = trace w \<and> \<not> isSignalWeak (monitorCtx w')))
       \<and> (isSignalWeak (monitorCtx w) \<longrightarrow>
            (if q \<ge> thresholdRecover (monitorCtx w)
             then trace w' = trace w @ [SignalChanged w q] \<and> \<not> isSignalWeak (monitorCtx w')
             else trace w' = trace w \<and> isSignalWeak (monitorCtx w')))
       \<and> (thresholdDrop (monitorCtx w) = 40 \<and> thresholdRecover (monitorCtx w) = 50
            \<and> \<not> isSignalWeak (monitorCtx w) \<longrightarrow>
          feed [60, 45, 38, 42, 55] w =
            [([], False), ([], False), ([SignalChanged w 38], True), ([], True),
             ([SignalChanged w 55], False)])"
proof -
  have p: "Ptr () \<noteq> (NULL :: unit ptr)" by simp
  note drop = callback_drop [OF p src code size, of w, folded q w']
  note recover = callback_recover [OF p src code size, of w, folded q w']
  note dead = callback_dead_zone [OF p src code size, of w, folded q w']
  have a: "\<not> isSignalWeak (monitorCtx w) \<longrightarrow>
            (if q \<le> thresholdDrop (monitorCtx w)
             then trace w' = trace w @ [SignalChanged w q] \<and> isSignalWeak (monitorCtx w')
             else trace w' = trace w \<and> \<not> isSignalWeak (monitorCtx w'))"
  proof (intro impI)
    assume s: "\<not> isSignalWeak (monitorCtx w)"
    show "if q \<le> thresholdDrop (monitorCtx w)
             then trace w' = trace w @ [SignalChanged w q] \<and> isSignalWeak (monitorCtx w')
             else trace w' = trace w \<and> \<not> isSignalWeak (monitorCtx w')"
    proof (cases "q \<le> thresholdDrop (monitorCtx w)")
      case True
      with drop [OF s] show ?thesis by simp
    next
      case False
      with dead s show ?thesis by simp
    qed
  qed
  have b: "isSignalWeak (monitorCtx w) \<longrightarrow>
            (if q \<ge> thresholdRecover (monitorCtx w)
             then trace w' = trace w @ [SignalChanged w q] \<and> \<not> isSignalWeak (monitorCtx w')
             else trace w' = trace w \<and> isSignalWeak (monitorCtx w'))"
  proof (intro impI)
    assume s: "isSignalWeak (monitorCtx w)"
    show "if q \<ge> thresholdRecover (monitorCtx w)
             then trace w' = trace w @ [SignalChanged w q] \<and> \<not> isSignalWeak (monitorCtx w')
             else trace w' = trace w \<and> isSignalWeak (monitorCtx w')"
    proof (cases "q \<ge> thresholdRecover (monitorCtx w)")
      case True
      with recover [OF s] show ?thesis by simp
    next
      case False
      with dead s show ?thesis by simp
    qed
  qed
  from a b feed_sequence [of w] show ?thesis by blast
qed

lemma SignalChanged_38: "SignalChanged initial_world 38 = PostThreadMessage 0 1132 38 (- 81)"
  by (simp add: SignalChanged_def initial_world_def WM_WIFI_SIGNAL_CHANGE_def WM_USER_def
      QualityToRSSI_nat)

lemma SignalChanged_55: "SignalChanged initial_world 55 = PostThreadMessage 0 1132 55 (- 73)"
  by (simp add: SignalChanged_def initial_world_def WM_WIFI_SIGNAL_CHANGE_def WM_USER_def
      QualityToRSSI_nat)

theorem C1_hysteresis_witness:
  "NotificationSource (quality_notification 38) = WLAN_NOTIFICATION_SOURCE_MSM
   \<and> NotificationCode (quality_notification 38) = wlan_notification_msm_signal_quality_change
   \<and> 4 \<le> dwDataSize (quality_notification 38)
   \<and> \<not> isSignalWeak (monitorCtx initial_world)
   \<and> pData (quality_notification 38) \<le> thresholdDrop (monitorCtx initial_world)
   \<and> thresholdDrop (monitorCtx initial_world) = 40
   \<and> thresholdRecover (monitorCtx initial_world) = 50
   \<and> trace (WlanNotificationCallback (quality_notification 38) (Ptr ()) initial_world)
       = [PostThreadMessage 0 1132 38 (- 81)]
   \<and> isSignalWeak (monitorCtx
         (WlanNotificationCallback (quality_notification 38) (Ptr ()) initial_world))
   \<and> feed [60, 45, 38, 42, 55] initial_world =
        [([], False), ([], False), ([PostThreadMessage 0 1132 38 (- 81)], True), ([], True),
         ([PostThreadMessage 0 1132 55 (- 73)], False)]"
proof -
  have h: "NotificationSource (quality_notification 38) = WLAN_NOTIFICATION_SOURCE_MSM"
    "NotificationCode (quality_notification 38) = wlan_notification_msm_signal_quality_change"
    "4 \<le> dwDataSize (quality_notification 38)"
    "pData (quality_notification 38) = 38"
    by (simp_all add: quality_notification_simps)
  have i: "\<not> isSignalWeak (monitorCtx initial_world)"
    "thresholdDrop (monitorCtx initial_world) = 40"
    "thresholdRecover (monitorCtx initial_world) = 50"
    by (simp_all add: initial_world_def)
  have tr: "trace initial_world = []" by (simp add: initial_world_def)
  have le: "pData (quality_notification 38) \<le> thresholdDrop (monitorCtx initial_world)"
    by (simp add: h i)
  note t = C1_hysteresis [OF h(1) h(2) h(3) refl refl, of initial_world]
  from t [THEN conjunct1] i(1) le
  have s1: "trace (WlanNotificationCallback (quality_notification 38) (Ptr ()) initial_world)
       = [PostThreadMessage 0 1132 38 (- 81)]
     \<and> isSignalWeak (monitorCtx
         (WlanNotificationCallback (quality_notification 38) (Ptr ()) initial_world))"
    by (simp add: h(4) tr SignalChanged_38)
  from t [THEN conjunct2, THEN conjunct2] i
  have s2: "feed [60, 45, 38, 42, 55] initial_world =
        [([], False), ([], False), ([PostThreadMessage 0 1132 38 (- 81)], True), ([], True),
         ([PostThreadMessage 0 1132 55 (- 73)], False)]"
    by (simp only: SignalChanged_38 SignalChanged_55 simp_thms)
  from h(1) h(2) h(3) i le s1 s2 show ?thesis by blast
qed

text \<open>
  C9. After every MSM signal-quality notification carrying a quality value,
  \<open>lastQuality\<close> is that value: in the drop transition, in the recover transition and
  in the dead zone alike.
\<close>

theorem C9_lastQuality:
  assumes "pContext \<noteq> NULL"
    and "NotificationSource n = WLAN_NOTIFICATION_SOURCE_MSM"
    and "NotificationCode n = wlan_notification_msm_signal_quality_change"
    and "4 \<le> dwDataSize n"
  shows "lastQuality (monitorCtx (WlanNotificationCallback n pContext w)) = pData n"
proof -
  note drop = callback_drop [OF assms, of w]
  note recover = callback_recover [OF assms, of w]
  note dead = callback_dead_zone [OF assms, of w]
  show ?thesis
  proof (cases "isSignalWeak (monitorCtx w)")
    case weak: True
    show ?thesis
    proof (cases "thresholdRecover (monitorCtx w) \<le> pData n")
      case True
      with recover weak show ?thesis by simp
    next
      case False
      with dead weak show ?thesis by simp
    qed
  next
    case strong: False
    show ?thesis
    proof (cases "pData n \<le> thresholdDrop (monitorCtx w)")
      case True
      with drop strong show ?thesis by simp
    next
      case False
      with dead strong show ?thesis by simp
    qed
  qed
qed


theorem C9_lastQuality_witness:
  "Ptr () \<noteq> (NULL :: unit ptr)
   \<and> NotificationSource (quality_notification 38) = WLAN_NOTIFICATION_SOURCE_MSM
   \<and> NotificationCode (quality_notification 38) = wlan_notification_msm_signal_quality_change
   \<and> 4 \<le> dwDataSize (quality_notification 38)
   \<and> lastQuality (monitorCtx
        (WlanNotificationCallback (quality_notification 38) (Ptr ()) initial_world)) = 38
   \<and> lastQuality (monitorCtx
        (WlanNotificationCallback (quality_notification 45) (Ptr ()) initial_world)) = 45
   \<and> lastQuality (monitorCtx
        (WlanNotificationCallback (quality_notification 55) (Ptr ())
           (initial_world\<lparr>monitorCtx := (monitorCtx initial_world)\<lparr>isSignalWeak := True\<rparr>\<rparr>)))
       = 55"
proof -
  have p: "Ptr () \<noteq> (NULL :: unit ptr)" by simp
  note q = quality_notification_simps
  from p q(1) q(2) q(3)
    C9_lastQuality [OF p q(1) q(2) q(3), of 38 initial_world]
    C9_lastQuality [OF p q(1) q(2) q(3), of 45 initial_world]
    C9_lastQuality [OF p q(1) q(2) q(3), of 55
      "initial_world\<lparr>monitorCtx := (monitorCtx initial_world)\<lparr>isSignalWeak := True\<rparr>\<rparr>"]
  show ?thesis by (simp only: q(4) simp_thms)
qed

section \<open>Connectivity derivation and notification\<close>

lemma and_exp_eq_exp_iff_bit:
  fixes c :: "32 word"
  assumes "n < 32"
  shows "(c AND 2 ^ n = 2 ^ n) = bit c n"
proof
  assume "c AND 2 ^ n = 2 ^ n"
  then have "bit (c AND 2 ^ n) n = bit ((2 :: 32 word) ^ n) n" by simp
  then show "bit c n" using assms by (simp add: bit_and_iff bit_exp_iff)
next
  assume "bit c n"
  then show "c AND 2 ^ n = 2 ^ n"
    by (intro bit_eqI) (auto simp add: bit_and_iff bit_exp_iff)
qed

lemma flag_set_iff:
  fixes c :: "32 word"
  assumes "n < 32"
  shows "(c AND 2 ^ n \<noteq> 0) = (c AND 2 ^ n = 2 ^ n)"
  using and_exp_eq_0_iff_not_bit [of c n] and_exp_eq_exp_iff_bit [OF assms, of c] by simp

lemma IPV4_INTERNET_exp: "NLM_CONNECTIVITY_IPV4_INTERNET = 2 ^ 6"
  by (simp add: NLM_CONNECTIVITY_IPV4_INTERNET_def)

lemma IPV6_INTERNET_exp: "NLM_CONNECTIVITY_IPV6_INTERNET = 2 ^ 10"
  by (simp add: NLM_CONNECTIVITY_IPV6_INTERNET_def)

lemma hasInternet_flags:
  "hasInternet c =
     (c AND NLM_CONNECTIVITY_IPV4_INTERNET = NLM_CONNECTIVITY_IPV4_INTERNET
      \<or> c AND NLM_CONNECTIVITY_IPV6_INTERNET = NLM_CONNECTIVITY_IPV6_INTERNET)"
  unfolding hasInternet_def IPV4_INTERNET_exp IPV6_INTERNET_exp
  by (simp only: flag_set_iff [of 6] flag_set_iff [of 10])

lemma hasInternet_bits: "hasInternet c = (bit c 6 \<or> bit c 10)"
  unfolding hasInternet_flags IPV4_INTERNET_exp IPV6_INTERNET_exp
  by (simp only: and_exp_eq_exp_iff_bit [of 6] and_exp_eq_exp_iff_bit [of 10])

lemma hasInternet_other_flags:
  "\<not> hasInternet (c AND NOT (NLM_CONNECTIVITY_IPV4_INTERNET OR NLM_CONNECTIVITY_IPV6_INTERNET))"
  unfolding hasInternet_bits IPV4_INTERNET_exp IPV6_INTERNET_exp
  by (simp add: bit_and_iff bit_not_iff bit_or_iff bit_exp_iff)

lemma no_internet_flags:
  "\<not> hasInternet NLM_CONNECTIVITY_DISCONNECTED"
  "\<not> hasInternet NLM_CONNECTIVITY_IPV4_NOTRAFFIC"
  "\<not> hasInternet NLM_CONNECTIVITY_IPV6_NOTRAFFIC"
  "\<not> hasInternet NLM_CONNECTIVITY_IPV4_SUBNET"
  "\<not> hasInternet NLM_CONNECTIVITY_IPV6_SUBNET"
  "\<not> hasInternet NLM_CONNECTIVITY_IPV4_LOCALNETWORK"
  "\<not> hasInternet NLM_CONNECTIVITY_IPV6_LOCALNETWORK"
  "\<not> hasInternet (NLM_CONNECTIVITY_IPV4_NOTRAFFIC OR NLM_CONNECTIVITY_IPV6_NOTRAFFIC
      OR NLM_CONNECTIVITY_IPV4_SUBNET OR NLM_CONNECTIVITY_IPV6_SUBNET
      OR NLM_CONNECTIVITY_IPV4_LOCALNETWORK OR NLM_CONNECTIVITY_IPV6_LOCALNETWORK)"
  by (simp_all add: hasInternet_def NLM_CONNECTIVITY_DISCONNECTED_def
      NLM_CONNECTIVITY_IPV4_NOTRAFFIC_def NLM_CONNECTIVITY_IPV6_NOTRAFFIC_def
      NLM_CONNECTIVITY_IPV4_SUBNET_def NLM_CONNECTIVITY_IPV6_SUBNET_def
      NLM_CONNECTIVITY_IPV4_LOCALNETWORK_def NLM_CONNECTIVITY_IPV6_LOCALNETWORK_def
      NLM_CONNECTIVITY_IPV4_INTERNET_def NLM_CONNECTIVITY_IPV6_INTERNET_def)

lemma internet_flags:
  "hasInternet NLM_CONNECTIVITY_IPV4_INTERNET"
  "hasInternet NLM_CONNECTIVITY_IPV6_INTERNET"
  by (simp_all add: hasInternet_def
      NLM_CONNECTIVITY_IPV4_INTERNET_def NLM_CONNECTIVITY_IPV6_INTERNET_def)

lemma StatusChanged_initial:
  "StatusChanged initial_world True = PostThreadMessage 0 1131 1 0"
  "StatusChanged initial_world False = PostThreadMessage 0 1131 0 0"
  by (simp_all add: StatusChanged_def initial_world_def WM_NETWORK_STATUS_CHANGE_def WM_USER_def)

lemma StatusChanged_cong:
  "g_mainThreadId w' = g_mainThreadId w \<Longrightarrow> StatusChanged w' b = StatusChanged w b"
  by (simp add: StatusChanged_def)

lemma sendNetworkStatusMessage_trace:
  "trace (sendNetworkStatusMessage c w) = trace w @ [StatusChanged w (hasInternet c)]"
  by (simp add: sendNetworkStatusMessage_def emit_def StatusChanged_def)

lemma PrintConnectivity_frame:
  "trace (PrintConnectivity c w) = trace w"
  "g_mainThreadId (PrintConnectivity c w) = g_mainThreadId w"
  by (simp_all add: PrintConnectivity_def Let_def)

lemma ConnectivityChanged_trace:
  "trace (ConnectivityChanged c w) = trace w @ [StatusChanged w (hasInternet c)]"
  by (simp add: ConnectivityChanged_def sendNetworkStatusMessage_trace PrintConnectivity_frame
      StatusChanged_cong [OF PrintConnectivity_frame(2)])

lemma ConnectivityChanged_tid:
  "g_mainThreadId (ConnectivityChanged c w) = g_mainThreadId w"
  by (simp add: ConnectivityChanged_def sendNetworkStatusMessage_def emit_def
      PrintConnectivity_frame)

lemma notify_all_trace:
  "trace (notify_all cs w) = trace w @ map (\<lambda>c. StatusChanged w (hasInternet c)) cs"
proof (induction cs arbitrary: w)
  case Nil
  show ?case by (simp add: notify_all_def)
next
  case (Cons c cs)
  have "trace (notify_all (c # cs) w) = trace (notify_all cs (ConnectivityChanged c w))"
    by (simp add: notify_all_def)
  also have "\<dots> = trace (ConnectivityChanged c w)
      @ map (\<lambda>d. StatusChanged (ConnectivityChanged c w) (hasInternet d)) cs"
    by (rule Cons.IH)
  also have "\<dots> = trace w @ map (\<lambda>d. StatusChanged w (hasInternet d)) (c # cs)"
    by (simp add: ConnectivityChanged_trace StatusChanged_cong [OF ConnectivityChanged_tid])
  finally show ?case .
qed

text \<open>
  C7. For every connectivity value, \<open>hasInternet\<close> is true exactly when the
  IPv4-Internet flag or the IPv6-Internet flag is set, and the posted status is 1 or 0
  accordingly; no combination of the other flags gives \<open>hasInternet\<close>: not the local
  network flags, not the subnet flags, not the no-traffic flags, nor the disconnected
  value.
\<close>

theorem C7_hasInternet_iff_internet_flag:
  "hasInternet c =
     (c AND NLM_CONNECTIVITY_IPV4_INTERNET = NLM_CONNECTIVITY_IPV4_INTERNET
      \<or> c AND NLM_CONNECTIVITY_IPV6_INTERNET = NLM_CONNECTIVITY_IPV6_INTERNET)
   \<and> trace (sendNetworkStatusMessage c w) = trace w @ [StatusChanged w (hasInternet c)]
   \<and> \<not> hasInternet
         (c AND NOT (NLM_CONNECTIVITY_IPV4_INTERNET OR NLM_CONNECTIVITY_IPV6_INTERNET))
   \<and> \<not> hasInternet NLM_CONNECTIVITY_DISCONNECTED
   \<and> \<not> hasInternet NLM_CONNECTIVITY_IPV4_LOCALNETWORK
   \<and> \<not> hasInternet NLM_CONNECTIVITY_IPV6_LOCALNETWORK
   \<and> \<not> hasInternet NLM_CONNECTIVITY_IPV4_SUBNET
   \<and> \<not> hasInternet NLM_CONNECTIVITY_IPV6_SUBNET
   \<and> \<not> hasInternet NLM_CONNECTIVITY_IPV4_NOTRAFFIC
   \<and> \<not> hasInternet NLM_CONNECTIVITY_IPV6_NOTRAFFIC
   \<and> \<not> hasInternet (NLM_CONNECTIVITY_IPV4_NOTRAFFIC OR NLM_CONNECTIVITY_IPV6_NOTRAFFIC
          OR NLM_CONNECTIVITY_IPV4_SUBNET OR NLM_CONNECTIVITY_IPV6_SUBNET
          OR NLM_CONNECTIVITY_IPV4_LOCALNETWORK OR NLM_CONNECTIVITY_IPV6_LOCALNETWORK)"
  using hasInternet_flags [of c] sendNetworkStatusMessage_trace [of c w]
    hasInternet_other_flags [of c] no_internet_flags
  by blast

theorem C7_hasInternet_iff_internet_flag_witness:
  "hasInternet (NLM_CONNECTIVITY_IPV4_LOCALNETWORK OR NLM_CONNECTIVITY_IPV6_INTERNET)
   \<and> trace (sendNetworkStatusMessage
        (NLM_CONNECTIVITY_IPV4_LOCALNETWORK OR NLM_CONNECTIVITY_IPV6_INTERNET) initial_world)
       = [PostThreadMessage 0 1131 1 0]
   \<and> \<not> hasInternet (NLM_CONNECTIVITY_IPV4_LOCALNETWORK OR NLM_CONNECTIVITY_IPV6_SUBNET)
   \<and> trace (sendNetworkStatusMessage
        (NLM_CONNECTIVITY_IPV4_LOCALNETWORK OR NLM_CONNECTIVITY_IPV6_SUBNET) initial_world)
       = [PostThreadMessage 0 1131 0 0]"
proof -
  let ?a = "NLM_CONNECTIVITY_IPV4_LOCALNETWORK OR NLM_CONNECTIVITY_IPV6_INTERNET"
  let ?b = "NLM_CONNECTIVITY_IPV4_LOCALNETWORK OR NLM_CONNECTIVITY_IPV6_SUBNET"
  have v: "?a AND NLM_CONNECTIVITY_IPV6_INTERNET = NLM_CONNECTIVITY_IPV6_INTERNET"
    "?b AND NLM_CONNECTIVITY_IPV4_INTERNET \<noteq> NLM_CONNECTIVITY_IPV4_INTERNET"
    "?b AND NLM_CONNECTIVITY_IPV6_INTERNET \<noteq> NLM_CONNECTIVITY_IPV6_INTERNET"
    by (simp_all add: NLM_CONNECTIVITY_IPV4_LOCALNETWORK_def NLM_CONNECTIVITY_IPV6_SUBNET_def
        NLM_CONNECTIVITY_IPV4_INTERNET_def NLM_CONNECTIVITY_IPV6_INTERNET_def)
  have t: "trace initial_world = []" by (simp add: initial_world_def)
  note a = C7_hasInternet_iff_internet_flag [of ?a initial_world]
  note b = C7_hasInternet_iff_internet_flag [of ?b initial_world]
  from a v(1) have ha: "hasInternet ?a" by blast
  from b v(2) v(3) have hb: "\<not> hasInternet ?b" by blast
  from a ha have ta: "trace (sendNetworkStatusMessage ?a initial_world)
       = [PostThreadMessage 0 1131 1 0]"
    by (simp only: t StatusChanged_initial append_Nil simp_thms)
  from b hb have tb: "trace (sendNetworkStatusMessage ?b initial_world)
       = [PostThreadMessage 0 1131 0 0]"
    by (simp only: t StatusChanged_initial append_Nil simp_thms)
  from ha ta hb tb show ?thesis by blast
qed

text \<open>
  C2, as stated, fails: two notifications carrying the same connectivity value, with
  the same \<open>hasInternet\<close>, post two messages.
\<close>

theorem C2_repeated_notification_posts_again:
  "posted (notify_all [NLM_CONNECTIVITY_IPV4_INTERNET, NLM_CONNECTIVITY_IPV4_INTERNET]
             initial_world)
     = [PostThreadMessage 0 1131 1 0, PostThreadMessage 0 1131 1 0]"
proof -
  have t: "trace initial_world = []" by (simp add: initial_world_def)
  show ?thesis
    by (simp add: posted_def notify_all_trace internet_flags StatusChanged_initial t)
qed

text \<open>
  C2, amended. For every connectivity-change notification delivered to the callback,
  the subscriber computes \<open>hasInternet\<close> and posts one status message carrying it,
  whether or not the value differs from the one posted before: a sequence of
  notifications posts one message each, in order.
\<close>

theorem C2_every_notification_posts:
  "trace (ConnectivityChanged c w) = trace w @ [StatusChanged w (hasInternet c)]
   \<and> trace (notify_all cs w) = trace w @ map (\<lambda>c. StatusChanged w (hasInternet c)) cs"
  using ConnectivityChanged_trace [of c w] notify_all_trace [of cs w] by blast

theorem C2_every_notification_posts_witness:
  "trace (notify_all [NLM_CONNECTIVITY_DISCONNECTED, NLM_CONNECTIVITY_DISCONNECTED,
                      NLM_CONNECTIVITY_IPV6_INTERNET, NLM_CONNECTIVITY_IPV6_INTERNET]
            initial_world)
     = [PostThreadMessage 0 1131 0 0, PostThreadMessage 0 1131 0 0,
        PostThreadMessage 0 1131 1 0, PostThreadMessage 0 1131 1 0]"
proof -
  have t: "trace initial_world = []" by (simp add: initial_world_def)
  from C2_every_notification_posts [of NLM_CONNECTIVITY_DISCONNECTED initial_world
      "[NLM_CONNECTIVITY_DISCONNECTED, NLM_CONNECTIVITY_DISCONNECTED,
        NLM_CONNECTIVITY_IPV6_INTERNET, NLM_CONNECTIVITY_IPV6_INTERNET]"]
  show ?thesis
    by (simp add: internet_flags no_internet_flags StatusChanged_initial t)
qed

section \<open>Starting the two subscribers\<close>

lemma FAILED_iff: "FAILED hr = (\<not> SUCCEEDED hr)"
  by (auto simp add: FAILED_def SUCCEEDED_def)

lemma SUCCEEDED_S_OK: "SUCCEEDED S_OK"
  by (simp add: SUCCEEDED_def S_OK_def)

lemma FAILED_E_FAIL: "\<not> SUCCEEDED E_FAIL"
  by (simp add: SUCCEEDED_def E_FAIL_def)

lemma NLM_succeeds_simps:
  "SUCCEEDED (hr_CoInitializeEx (NLM_succeeds c))"
  "SUCCEEDED (hr_CoCreateInstance (NLM_succeeds c))"
  "SUCCEEDED (hr_QueryInterface (NLM_succeeds c))"
  "SUCCEEDED (hr_FindConnectionPoint (NLM_succeeds c))"
  "SUCCEEDED (hr_Advise (NLM_succeeds c))"
  "SUCCEEDED (hr_GetConnectivity (NLM_succeeds c))"
  "currentConnectivity (NLM_succeeds c) = c"
  "cookie (NLM_succeeds c) = 1"
  by (simp_all add: NLM_succeeds_def SUCCEEDED_S_OK)

lemma StartNetworkMonitor_registered:
  assumes "SUCCEEDED (hr_CoInitializeEx p)" and "SUCCEEDED (hr_CoCreateInstance p)"
    and "SUCCEEDED (hr_QueryInterface p)" and "SUCCEEDED (hr_FindConnectionPoint p)"
    and "SUCCEEDED (hr_Advise p)"
  shows "fst (StartNetworkMonitor p w) = 0"
    and "trace (snd (StartNetworkMonitor p w)) =
       trace w @ [CoInitializeEx, CoCreateInstance, QueryInterface_IConnectionPointContainer,
                  FindConnectionPoint, new_CNetworkListManagerEvents, Advise, GetConnectivity]
         @ (if SUCCEEDED (hr_GetConnectivity p)
               \<and> currentConnectivity p = NLM_CONNECTIVITY_DISCONNECTED
            then [StatusChanged w False] else [])"
  using assms
  by (simp_all add: StartNetworkMonitor_def FAILED_iff Let_def emit_def out_ptr_def
      IConnectionPoint_Advise_def PrintConnectivity_frame StatusChanged_def)

lemma net_started_world_eq:
  "net_started_world =
     initial_world\<lparr>g_networkConnected := True, g_pNetworkListManager := Ptr (),
       g_pCPContainer := Ptr (), g_pConnectPoint := Ptr (), g_pNetEvents := Ptr 1,
       g_dwCookie := 1, heap := [1 \<mapsto> \<lparr>m_lRef = 2\<rparr>], next_addr := 2,
       advised := Some (1, 1),
       trace := [CoInitializeEx, CoCreateInstance, QueryInterface_IConnectionPointContainer,
                 FindConnectionPoint, new_CNetworkListManagerEvents, Advise, GetConnectivity]\<rparr>"
  by (simp add: net_started_world_def StartNetworkMonitor_def NLM_succeeds_def SUCCEEDED_S_OK
      FAILED_iff Let_def emit_def out_ptr_def IConnectionPoint_Advise_def PrintConnectivity_def
      CNetworkListManagerEvents_new_def AddRef_def initial_world_def
      NLM_CONNECTIVITY_IPV4_INTERNET_def NLM_CONNECTIVITY_IPV6_INTERNET_def
      NLM_CONNECTIVITY_DISCONNECTED_def)

text \<open>
  C3, as stated, fails: every call of the start succeeds and the query reports IPv4
  Internet access, the registration stands, and no message is posted.
\<close>

theorem C3_connected_snapshot_posts_nothing:
  "fst (StartNetworkMonitor (NLM_succeeds NLM_CONNECTIVITY_IPV4_INTERNET) initial_world) = 0
   \<and> advised net_started_world = Some (1, 1)
   \<and> hasInternet NLM_CONNECTIVITY_IPV4_INTERNET
   \<and> GetConnectivity \<in> set (trace net_started_world)
   \<and> posted net_started_world = []"
proof -
  have "fst (StartNetworkMonitor (NLM_succeeds NLM_CONNECTIVITY_IPV4_INTERNET) initial_world) = 0"
    by (rule StartNetworkMonitor_registered(1)) (rule NLM_succeeds_simps)+
  moreover have "advised net_started_world = Some (1, 1)"
    "GetConnectivity \<in> set (trace net_started_world)"
    "posted net_started_world = []"
    by (simp_all add: net_started_world_eq posted_def)
  ultimately show ?thesis using internet_flags(1) by blast
qed

text \<open>
  C3, amended. When registration of the connectivity subscriber succeeds, it
  immediately performs one synchronous query of the current connectivity state; it
  posts one initial status message, with status 0, only when the query succeeds and
  reports the fully disconnected value; for every other result, the connected ones
  included, it posts nothing.
\<close>

theorem C3_initial_snapshot_only_when_disconnected:
  assumes "SUCCEEDED (hr_CoInitializeEx p)" and "SUCCEEDED (hr_CoCreateInstance p)"
    and "SUCCEEDED (hr_QueryInterface p)" and "SUCCEEDED (hr_FindConnectionPoint p)"
    and "SUCCEEDED (hr_Advise p)"
  shows "fst (StartNetworkMonitor p w) = 0
     \<and> trace (snd (StartNetworkMonitor p w)) =
         trace w @ [CoInitializeEx, CoCreateInstance, QueryInterface_IConnectionPointContainer,
                    FindConnectionPoint, new_CNetworkListManagerEvents, Advise, GetConnectivity]
           @ (if SUCCEEDED (hr_GetConnectivity p)
                 \<and> currentConnectivity p = NLM_CONNECTIVITY_DISCONNECTED
              then [StatusChanged w False] else [])"
  using StartNetworkMonitor_registered [OF assms, of w] by blast

theorem C3_initial_snapshot_only_when_disconnected_witness:
  "SUCCEEDED (hr_CoInitializeEx (NLM_succeeds NLM_CONNECTIVITY_DISCONNECTED))
   \<and> SUCCEEDED (hr_CoCreateInstance (NLM_succeeds NLM_CONNECTIVITY_DISCONNECTED))
   \<and> SUCCEEDED (hr_QueryInterface (NLM_succeeds NLM_CONNECTIVITY_DISCONNECTED))
   \<and> SUCCEEDED (hr_FindConnectionPoint (NLM_succeeds NLM_CONNECTIVITY_DISCONNECTED))
   \<and> SUCCEEDED (hr_Advise (NLM_succeeds NLM_CONNECTIVITY_DISCONNECTED))
   \<and> trace (snd (StartNetworkMonitor (NLM_succeeds NLM_CONNECTIVITY_DISCONNECTED)
                    initial_world)) =
        [CoInitializeEx, CoCreateInstance, QueryInterface_IConnectionPointContainer,
         FindConnectionPoint, new_CNetworkListManagerEvents, Advise, GetConnectivity,
         PostThreadMessage 0 1131 0 0]
   \<and> trace (snd (StartNetworkMonitor (NLM_succeeds NLM_CONNECTIVITY_IPV6_INTERNET)
                    initial_world)) =
        [CoInitializeEx, CoCreateInstance, QueryInterface_IConnectionPointContainer,
         FindConnectionPoint, new_CNetworkListManagerEvents, Advise, GetConnectivity]"
proof -
  note s = NLM_succeeds_simps
  have t: "trace initial_world = []" by (simp add: initial_world_def)
  have ne: "NLM_CONNECTIVITY_IPV6_INTERNET \<noteq> NLM_CONNECTIVITY_DISCONNECTED"
    by (simp add: NLM_CONNECTIVITY_IPV6_INTERNET_def NLM_CONNECTIVITY_DISCONNECTED_def)
  from C3_initial_snapshot_only_when_disconnected
         [OF s(1) s(2) s(3) s(4) s(5), of NLM_CONNECTIVITY_DISCONNECTED initial_world]
  have a: "trace (snd (StartNetworkMonitor (NLM_succeeds NLM_CONNECTIVITY_DISCONNECTED)
                    initial_world)) =
        [CoInitializeEx, CoCreateInstance, QueryInterface_IConnectionPointContainer,
         FindConnectionPoint, new_CNetworkListManagerEvents, Advise, GetConnectivity,
         PostThreadMessage 0 1131 0 0]"
    by (simp add: s t StatusChanged_initial)
  from C3_initial_snapshot_only_when_disconnected
         [OF s(1) s(2) s(3) s(4) s(5), of NLM_CONNECTIVITY_IPV6_INTERNET initial_world]
  have b: "trace (snd (StartNetworkMonitor (NLM_succeeds NLM_CONNECTIVITY_IPV6_INTERNET)
                    initial_world)) =
        [CoInitializeEx, CoCreateInstance, QueryInterface_IConnectionPointContainer,
         FindConnectionPoint, new_CNetworkListManagerEvents, Advise, GetConnectivity]"
    by (simp add: s t ne)
  from s(1) [of NLM_CONNECTIVITY_DISCONNECTED] s(2) [of NLM_CONNECTIVITY_DISCONNECTED]
    s(3) [of NLM_CONNECTIVITY_DISCONNECTED] s(4) [of NLM_CONNECTIVITY_DISCONNECTED]
    s(5) [of NLM_CONNECTIVITY_DISCONNECTED] a b
  show ?thesis by blast
qed

lemma StartWlanMonitor_result:
  "fst (StartWlanMonitor p w) =
     (if r_WlanOpenHandle p = ERROR_SUCCESS \<and> r_WlanRegisterNotification p = ERROR_SUCCESS
      then 0 else 1)"
  by (simp add: StartWlanMonitor_def Let_def)

lemma StartWlanMonitor_thresholds:
  "thresholdDrop (monitorCtx (snd (StartWlanMonitor p w))) = thresholdDrop (monitorCtx w)"
  "thresholdRecover (monitorCtx (snd (StartWlanMonitor p w))) = thresholdRecover (monitorCtx w)"
  by (simp_all add: StartWlanMonitor_def Let_def emit_def)

lemma StartWlanMonitor_silent:
  "posted (snd (StartWlanMonitor p w)) = posted w"
  by (simp add: StartWlanMonitor_def Let_def emit_def posted_def)

lemma StartWlanMonitor_baseline:
  assumes "r_WlanOpenHandle p = ERROR_SUCCESS" and "r_WlanEnumInterfaces p = ERROR_SUCCESS"
    and "0 < dwNumberOfItems p" and "r_WlanQueryInterface p = ERROR_SUCCESS"
    and "isState p = wlan_interface_state_connected"
  shows "isSignalWeak (monitorCtx (snd (StartWlanMonitor p w)))
           = (wlanSignalQuality p \<le> thresholdDrop (monitorCtx w))"
    and "lastQuality (monitorCtx (snd (StartWlanMonitor p w))) = wlanSignalQuality p"
  using assms by (simp_all add: StartWlanMonitor_def Let_def emit_def)

lemma WLAN_succeeds_simps:
  "r_WlanOpenHandle (WLAN_succeeds q) = ERROR_SUCCESS"
  "r_WlanEnumInterfaces (WLAN_succeeds q) = ERROR_SUCCESS"
  "0 < dwNumberOfItems (WLAN_succeeds q)"
  "r_WlanQueryInterface (WLAN_succeeds q) = ERROR_SUCCESS"
  "isState (WLAN_succeeds q) = wlan_interface_state_connected"
  "r_WlanRegisterNotification (WLAN_succeeds q) = ERROR_SUCCESS"
  "wlanSignalQuality (WLAN_succeeds q) = q"
  by (simp_all add: WLAN_succeeds_def)

text \<open>
  C6, as stated, fails: with a recover threshold of 40 below a drop threshold of 50,
  \<open>StartWlanMonitor\<close> reports success, registers the callback and establishes the
  baseline (a quality of 45 counts as weak).
\<close>

theorem C6_inverted_thresholds_accepted:
  "thresholdRecover (monitorCtx inverted_world) \<le> thresholdDrop (monitorCtx inverted_world)
   \<and> fst (StartWlanMonitor (WLAN_succeeds 45) inverted_world) = 0
   \<and> wlan_registered (snd (StartWlanMonitor (WLAN_succeeds 45) inverted_world))
   \<and> isSignalWeak (monitorCtx (snd (StartWlanMonitor (WLAN_succeeds 45) inverted_world)))
   \<and> lastQuality (monitorCtx (snd (StartWlanMonitor (WLAN_succeeds 45) inverted_world))) = 45"
  by (simp add: StartWlanMonitor_def Let_def emit_def inverted_world_def initial_world_def
      WLAN_succeeds_def ERROR_SUCCESS_def)

text \<open>
  C6, amended. Wireless subscriber initialization does not validate the thresholds:
  \<open>StartWlanMonitor\<close> fails exactly when opening the handle or registering the
  notification fails, whatever the thresholds are, and leaves them unchanged; the
  thresholds the program starts from are the fixed pair 40 and 50, for which
  \<open>thresholdRecover > thresholdDrop\<close> holds. When the query reports a connected
  interface, the baseline \<open>isSignalWeak = (quality \<le> thresholdDrop)\<close> is established,
  and no message is posted.
\<close>

theorem C6_no_threshold_validation:
  "fst (StartWlanMonitor p w) =
     (if r_WlanOpenHandle p = ERROR_SUCCESS \<and> r_WlanRegisterNotification p = ERROR_SUCCESS
      then 0 else 1)
   \<and> thresholdDrop (monitorCtx (snd (StartWlanMonitor p w))) = thresholdDrop (monitorCtx w)
   \<and> thresholdRecover (monitorCtx (snd (StartWlanMonitor p w)))
       = thresholdRecover (monitorCtx w)
   \<and> thresholdDrop (monitorCtx initial_world) = 40
   \<and> thresholdRecover (monitorCtx initial_world) = 50
   \<and> thresholdDrop (monitorCtx initial_world) < thresholdRecover (monitorCtx initial_world)
   \<and> posted (snd (StartWlanMonitor p w)) = posted w
   \<and> (r_WlanOpenHandle p = ERROR_SUCCESS \<and> r_WlanEnumInterfaces p = ERROR_SUCCESS
        \<and> 0 < dwNumberOfItems p \<and> r_WlanQueryInterface p = ERROR_SUCCESS
        \<and> isState p = wlan_interface_state_connected \<longrightarrow>
      isSignalWeak (monitorCtx (snd (StartWlanMonitor p w)))
        = (wlanSignalQuality p \<le> thresholdDrop (monitorCtx w))
      \<and> lastQuality (monitorCtx (snd (StartWlanMonitor p w))) = wlanSignalQuality p)"
proof -
  have i: "thresholdDrop (monitorCtx initial_world) = 40"
    "thresholdRecover (monitorCtx initial_world) = 50"
    "thresholdDrop (monitorCtx initial_world) < thresholdRecover (monitorCtx initial_world)"
    by (simp_all add: initial_world_def)
  from StartWlanMonitor_result [of p w] StartWlanMonitor_thresholds [of p w] i
    StartWlanMonitor_silent [of p w] StartWlanMonitor_baseline [of p w]
  show ?thesis by blast
qed

theorem C6_no_threshold_validation_witness:
  "r_WlanOpenHandle (WLAN_succeeds 30) = ERROR_SUCCESS
   \<and> r_WlanEnumInterfaces (WLAN_succeeds 30) = ERROR_SUCCESS
   \<and> 0 < dwNumberOfItems (WLAN_succeeds 30)
   \<and> r_WlanQueryInterface (WLAN_succeeds 30) = ERROR_SUCCESS
   \<and> isState (WLAN_succeeds 30) = wlan_interface_state_connected
   \<and> fst (StartWlanMonitor (WLAN_succeeds 30) initial_world) = 0
   \<and> isSignalWeak (monitorCtx (snd (StartWlanMonitor (WLAN_succeeds 30) initial_world)))
   \<and> lastQuality (monitorCtx (snd (StartWlanMonitor (WLAN_succeeds 30) initial_world))) = 30
   \<and> posted (snd (StartWlanMonitor (WLAN_succeeds 30) initial_world)) = []"
proof -
  note s = WLAN_succeeds_simps [of 30]
  note t = C6_no_threshold_validation [of "WLAN_succeeds 30" initial_world]
  have p0: "posted initial_world = []" by (simp add: posted_def initial_world_def)
  have le: "(30 :: ULONG) \<le> 40" by simp
  from t s have a: "fst (StartWlanMonitor (WLAN_succeeds 30) initial_world) = 0" by simp
  from t s have b:
    "isSignalWeak (monitorCtx (snd (StartWlanMonitor (WLAN_succeeds 30) initial_world)))
       = (30 \<le> thresholdDrop (monitorCtx initial_world))
     \<and> lastQuality (monitorCtx (snd (StartWlanMonitor (WLAN_succeeds 30) initial_world))) = 30"
    by simp
  from t have d: "thresholdDrop (monitorCtx initial_world) = 40" by blast
  from t p0 have c: "posted (snd (StartWlanMonitor (WLAN_succeeds 30) initial_world)) = []"
    by simp
  from s(1) s(2) s(3) s(4) s(5) a b c d le show ?thesis by simp
qed

section \<open>Stopping\<close>

lemma and_then_Inr: "(and_then r f = Inr w') = (\<exists>w1. r = Inr w1 \<and> f w1 = Inr w')"
  by (cases r) (simp_all add: and_then_def)

lemma Release_at_frame:
  assumes "Release_at a w = Inr w'"
  shows "trace w' = trace w" and "same_globals w w'"
  using assms by (auto simp add: Release_at_def same_globals_def split: option.splits)

lemma Unadvise_frame:
  assumes "IConnectionPoint_Unadvise c w = Inr w'"
  shows "trace w' = trace w @ [Unadvise c]" and "same_globals w w'"
proof -
  let ?w1 = "emit (Unadvise c) w"
  have e: "trace ?w1 = trace w @ [Unadvise c]" "same_globals w ?w1"
    by (simp_all add: emit_def same_globals_def)
  have "trace w' = trace w @ [Unadvise c] \<and> same_globals w w'"
  proof (cases "advised ?w1")
    case None
    with assms have "w' = ?w1" by (simp add: IConnectionPoint_Unadvise_def Let_def)
    with e show ?thesis by simp
  next
    case (Some r)
    obtain c' a where r: "r = (c', a)" by (cases r)
    show ?thesis
    proof (cases "c' = c")
      case True
      with assms Some r have "Release_at a (?w1\<lparr>advised := None\<rparr>) = Inr w'"
        by (simp add: IConnectionPoint_Unadvise_def Let_def)
      from Release_at_frame [OF this] e show ?thesis
        by (simp add: same_globals_def)
    next
      case False
      with assms Some r have "w' = ?w1" by (simp add: IConnectionPoint_Unadvise_def Let_def)
      with e show ?thesis by simp
    qed
  qed
  then show "trace w' = trace w @ [Unadvise c]" and "same_globals w w'" by simp_all
qed

lemma StopNetworkMonitor_releases:
  "trace (let (p3, w3) = SafeRelease g_pConnectPoint_Release (g_pConnectPoint w2) w2;
              w3 = w3\<lparr>g_pConnectPoint := p3\<rparr>;
              (p4, w4) = SafeRelease g_pCPContainer_Release (g_pCPContainer w3) w3;
              w4 = w4\<lparr>g_pCPContainer := p4\<rparr>;
              (p5, w5) =
                SafeRelease g_pNetworkListManager_Release (g_pNetworkListManager w4) w4;
              w5 = w5\<lparr>g_pNetworkListManager := p5\<rparr>
          in emit CoUninitialize w5)
     = trace w2
       @ (if g_pConnectPoint w2 \<noteq> NULL then [g_pConnectPoint_Release] else [])
       @ (if g_pCPContainer w2 \<noteq> NULL then [g_pCPContainer_Release] else [])
       @ (if g_pNetworkListManager w2 \<noteq> NULL then [g_pNetworkListManager_Release] else [])
       @ [CoUninitialize]"
  "g_hClient (let (p3, w3) = SafeRelease g_pConnectPoint_Release (g_pConnectPoint w2) w2;
              w3 = w3\<lparr>g_pConnectPoint := p3\<rparr>;
              (p4, w4) = SafeRelease g_pCPContainer_Release (g_pCPContainer w3) w3;
              w4 = w4\<lparr>g_pCPContainer := p4\<rparr>;
              (p5, w5) =
                SafeRelease g_pNetworkListManager_Release (g_pNetworkListManager w4) w4;
              w5 = w5\<lparr>g_pNetworkListManager := p5\<rparr>
          in emit CoUninitialize w5)
     = g_hClient w2"
  by (simp_all add: SafeRelease_def emit_def Let_def)

lemma StopNetworkMonitor_trace:
  assumes "StopNetworkMonitor w = Inr w'"
  shows "trace w' = trace w
       @ (if g_pConnectPoint w \<noteq> NULL then [Unadvise (g_dwCookie w)] else [])
       @ (if g_pNetEvents w \<noteq> NULL then [g_pNetEvents_Release] else [])
       @ (if g_pConnectPoint w \<noteq> NULL then [g_pConnectPoint_Release] else [])
       @ (if g_pCPContainer w \<noteq> NULL then [g_pCPContainer_Release] else [])
       @ (if g_pNetworkListManager w \<noteq> NULL then [g_pNetworkListManager_Release] else [])
       @ [CoUninitialize]"
    and "g_hClient w' = g_hClient w"
proof -
  from assms obtain w1 w2 where
    s1: "(if g_pConnectPoint w \<noteq> NULL then IConnectionPoint_Unadvise (g_dwCookie w) w
          else Inr w) = Inr w1"
    and s2: "(case g_pNetEvents w1 of NULL \<Rightarrow> Inr w1
              | Ptr a \<Rightarrow> Release_at a (emit g_pNetEvents_Release w1)) = Inr w2"
    and s3: "w' =
         (let (p3, w3) = SafeRelease g_pConnectPoint_Release (g_pConnectPoint w2) w2;
              w3 = w3\<lparr>g_pConnectPoint := p3\<rparr>;
              (p4, w4) = SafeRelease g_pCPContainer_Release (g_pCPContainer w3) w3;
              w4 = w4\<lparr>g_pCPContainer := p4\<rparr>;
              (p5, w5) =
                SafeRelease g_pNetworkListManager_Release (g_pNetworkListManager w4) w4;
              w5 = w5\<lparr>g_pNetworkListManager := p5\<rparr>
          in emit CoUninitialize w5)"
    unfolding StopNetworkMonitor_def and_then_Inr sum.inject by blast
  have t1: "trace w1
      = trace w @ (if g_pConnectPoint w \<noteq> NULL then [Unadvise (g_dwCookie w)] else [])"
  proof (cases "g_pConnectPoint w \<noteq> NULL")
    case True
    with s1 Unadvise_frame(1) [of "g_dwCookie w" w w1] show ?thesis by simp
  next
    case False
    with s1 show ?thesis by simp
  qed
  have g1: "same_globals w w1"
  proof (cases "g_pConnectPoint w \<noteq> NULL")
    case True
    with s1 Unadvise_frame(2) [of "g_dwCookie w" w w1] show ?thesis by simp
  next
    case False
    with s1 show ?thesis by (simp add: same_globals_def)
  qed
  have t2: "trace w2
      = trace w1 @ (if g_pNetEvents w1 \<noteq> NULL then [g_pNetEvents_Release] else [])"
  proof (cases "g_pNetEvents w1")
    case NULL
    with s2 show ?thesis by simp
  next
    case (Ptr a)
    with s2 Release_at_frame(1) [of a "emit g_pNetEvents_Release w1" w2] show ?thesis
      by (simp add: emit_def)
  qed
  have g2: "same_globals w1 w2"
  proof (cases "g_pNetEvents w1")
    case NULL
    with s2 show ?thesis by (simp add: same_globals_def)
  next
    case (Ptr a)
    with s2 Release_at_frame(2) [of a "emit g_pNetEvents_Release w1" w2] show ?thesis
      by (simp add: emit_def same_globals_def)
  qed
  from g1 g2 have g: "same_globals w w2" by (simp add: same_globals_def)
  show "trace w' = trace w
       @ (if g_pConnectPoint w \<noteq> NULL then [Unadvise (g_dwCookie w)] else [])
       @ (if g_pNetEvents w \<noteq> NULL then [g_pNetEvents_Release] else [])
       @ (if g_pConnectPoint w \<noteq> NULL then [g_pConnectPoint_Release] else [])
       @ (if g_pCPContainer w \<noteq> NULL then [g_pCPContainer_Release] else [])
       @ (if g_pNetworkListManager w \<noteq> NULL then [g_pNetworkListManager_Release] else [])
       @ [CoUninitialize]"
    unfolding s3 StopNetworkMonitor_releases t2 t1
    using g g1 by (simp add: same_globals_def)
  show "g_hClient w' = g_hClient w"
    unfolding s3 StopNetworkMonitor_releases using g by (simp add: same_globals_def)
qed

lemma StopWlanMonitor_trace:
  "trace (StopWlanMonitor w) = trace w
     @ [WlanRegisterNotification (g_hClient w) WLAN_NOTIFICATION_SOURCE_NONE,
        WlanCloseHandle (g_hClient w)]"
  "g_hClient (StopWlanMonitor w) = g_hClient w"
  by (simp_all add: StopWlanMonitor_def emit_def Let_def)

lemma OnExit_trace:
  assumes "OnExit w = Inr w'"
  shows "trace w' = trace w
       @ (if g_pConnectPoint w \<noteq> NULL then [Unadvise (g_dwCookie w)] else [])
       @ (if g_pNetEvents w \<noteq> NULL then [g_pNetEvents_Release] else [])
       @ (if g_pConnectPoint w \<noteq> NULL then [g_pConnectPoint_Release] else [])
       @ (if g_pCPContainer w \<noteq> NULL then [g_pCPContainer_Release] else [])
       @ (if g_pNetworkListManager w \<noteq> NULL then [g_pNetworkListManager_Release] else [])
       @ [CoUninitialize,
          WlanRegisterNotification (g_hClient w) WLAN_NOTIFICATION_SOURCE_NONE,
          WlanCloseHandle (g_hClient w)]"
proof -
  from assms obtain w1 where n: "StopNetworkMonitor w = Inr w1" and w': "w' = StopWlanMonitor w1"
    unfolding OnExit_def and_then_Inr sum.inject by blast
  show ?thesis
    unfolding w' StopWlanMonitor_trace StopNetworkMonitor_trace [OF n] by simp
qed

text \<open>The parts of idempotent teardown that hold.\<close>

lemma StopNetworkMonitor_posts_nothing:
  assumes "StopNetworkMonitor w = Inr w'"
  shows "posted w' = posted w"
  unfolding posted_def StopNetworkMonitor_trace(1) [OF assms] by simp

lemma StopWlanMonitor_posts_nothing: "posted (StopWlanMonitor w) = posted w"
  unfolding posted_def StopWlanMonitor_trace by simp

lemma StopWlanMonitor_twice:
  "trace (StopWlanMonitor (StopWlanMonitor w)) = trace w
     @ [WlanRegisterNotification (g_hClient w) WLAN_NOTIFICATION_SOURCE_NONE,
        WlanCloseHandle (g_hClient w),
        WlanRegisterNotification (g_hClient w) WLAN_NOTIFICATION_SOURCE_NONE,
        WlanCloseHandle (g_hClient w)]"
  by (simp add: StopWlanMonitor_trace)

lemma stop_before_start:
  "StopNetworkMonitor initial_world = Inr (initial_world\<lparr>trace := [CoUninitialize]\<rparr>)"
  "OnExit_actions initial_world =
     Some [CoUninitialize, WlanRegisterNotification NULL WLAN_NOTIFICATION_SOURCE_NONE,
           WlanCloseHandle NULL]"
  by (simp_all add: OnExit_actions_def OnExit_def StopNetworkMonitor_def and_then_def
      SafeRelease_def StopWlanMonitor_def emit_def Let_def initial_world_def)

lemma started_world_eq:
  "started_world =
     initial_world\<lparr>g_networkConnected := True, g_pNetworkListManager := Ptr (),
       g_pCPContainer := Ptr (), g_pConnectPoint := Ptr (), g_pNetEvents := Ptr 1,
       g_dwCookie := 1, g_hClient := Ptr (),
       monitorCtx := \<lparr> thresholdDrop = 40, thresholdRecover = 50,
                       isSignalWeak = False, lastQuality = 60 \<rparr>,
       heap := [1 \<mapsto> \<lparr>m_lRef = 2\<rparr>], next_addr := 2,
       advised := Some (1, 1), wlan_registered := True,
       trace := [CoInitializeEx, CoCreateInstance, QueryInterface_IConnectionPointContainer,
                 FindConnectionPoint, new_CNetworkListManagerEvents, Advise, GetConnectivity,
                 WlanOpenHandle, WlanEnumInterfaces, WlanQueryInterface, WlanFreeMemory,
                 WlanFreeMemory,
                 WlanRegisterNotification (Ptr ()) WLAN_NOTIFICATION_SOURCE_MSM]\<rparr>"
  unfolding started_world_def net_started_world_def [symmetric] net_started_world_eq
  by (simp add: StartWlanMonitor_def WLAN_succeeds_def Let_def emit_def initial_world_def)

lemma started_world_globals:
  "g_pConnectPoint started_world = Ptr ()" "g_pNetEvents started_world = Ptr 1"
  "g_pCPContainer started_world = Ptr ()" "g_pNetworkListManager started_world = Ptr ()"
  "g_dwCookie started_world = 1" "g_hClient started_world = Ptr ()"
  by (simp_all add: started_world_eq)

lemma first_stop: "StopNetworkMonitor started_world = Inr stopped_world"
  unfolding stopped_world_def started_world_eq
  by (simp add: StopNetworkMonitor_def and_then_def IConnectionPoint_Unadvise_def Let_def
      emit_def Release_at_def Release_def SafeRelease_def initial_world_def)

lemma second_stop: "StopNetworkMonitor stopped_world = Inl use_after_free"
  unfolding stopped_world_def started_world_eq
  by (simp add: StopNetworkMonitor_def and_then_def IConnectionPoint_Unadvise_def Let_def
      emit_def Release_at_def Release_def SafeRelease_def initial_world_def)

lemma first_OnExit: "OnExit started_world = Inr (StopWlanMonitor stopped_world)"
  by (simp add: OnExit_def and_then_def first_stop)

lemma OnExit_actions_started:
  "OnExit_actions started_world = Some (code_stop_order 1 (Ptr ()))"
  unfolding OnExit_actions_def first_OnExit
  by (simp add: StopWlanMonitor_trace stopped_world_def code_stop_order_def
      started_world_globals)

text \<open>
  The same fault when \<open>Advise\<close> failed at the start: the sink was created, the first
  stop deletes it, the second stop calls through the pointer that is left.
\<close>

lemma second_stop_after_failed_Advise:
  "and_then (StopNetworkMonitor (snd (StartNetworkMonitor NLM_Advise_fails initial_world)))
     StopNetworkMonitor = Inl use_after_free"
  by (simp add: NLM_Advise_fails_def StartNetworkMonitor_def NLM_succeeds_def SUCCEEDED_S_OK
      FAILED_E_FAIL FAILED_iff Let_def emit_def out_ptr_def IConnectionPoint_Advise_def
      CNetworkListManagerEvents_new_def initial_world_def
      StopNetworkMonitor_def and_then_def IConnectionPoint_Unadvise_def
      Release_at_def Release_def SafeRelease_def)

lemma main_stops_as_OnExit:
  "main tid pn pw ns =
     OnExit (fold deliver ns
       (snd (StartWlanMonitor pw
          (snd (StartNetworkMonitor pn (initial_world\<lparr>g_mainThreadId := tid\<rparr>))))))"
  by (simp add: main_def OnExit_def Let_def)

text \<open>
  C4. The claim holds for a stop before any start and for \<open>StopWlanMonitor\<close>, but not
  for \<open>StopNetworkMonitor\<close> called twice: after both starts have succeeded, the first
  stop runs to its end and deletes the event sink, and the second stop calls
  \<open>Release\<close> through \<open>g_pNetEvents\<close>, which still points to the deleted sink.
\<close>

theorem C4_second_stop_use_after_free:
  "StopNetworkMonitor started_world = Inr stopped_world
   \<and> g_pNetEvents stopped_world = Ptr 1 \<and> heap stopped_world 1 = None
   \<and> StopNetworkMonitor stopped_world = Inl use_after_free
   \<and> and_then (OnExit started_world) OnExit = Inl use_after_free"
proof -
  have a: "g_pNetEvents stopped_world = Ptr 1" "heap stopped_world 1 = None"
    by (simp_all add: stopped_world_def started_world_globals)
  have s: "StopNetworkMonitor (StopWlanMonitor stopped_world) = Inl use_after_free"
    unfolding stopped_world_def started_world_eq
    by (simp add: StopWlanMonitor_def StopNetworkMonitor_def and_then_def
        IConnectionPoint_Unadvise_def Let_def emit_def Release_at_def Release_def
        SafeRelease_def initial_world_def)
  have b: "and_then (OnExit started_world) OnExit = Inl use_after_free"
    unfolding first_OnExit by (simp add: and_then_def OnExit_def s)
  from first_stop a second_stop b show ?thesis by blast
qed

text \<open>
  C5, as stated, fails: after both starts have succeeded, the stop unregisters the
  connectivity subscriber first and tears down the runtime context before it
  unregisters the wireless subscriber, which comes next to last.
\<close>

theorem C5_wireless_unregistered_last:
  "OnExit_actions started_world = Some (code_stop_order 1 (Ptr ()))
   \<and> \<not> spec_stop_order 1 (Ptr ()) (code_stop_order 1 (Ptr ()))
   \<and> precedes (Unadvise 1)
        (WlanRegisterNotification (Ptr ()) WLAN_NOTIFICATION_SOURCE_NONE)
        (code_stop_order 1 (Ptr ()))
   \<and> precedes CoUninitialize
        (WlanRegisterNotification (Ptr ()) WLAN_NOTIFICATION_SOURCE_NONE)
        (code_stop_order 1 (Ptr ()))
   \<and> precedes Advise
        (WlanRegisterNotification (Ptr ()) WLAN_NOTIFICATION_SOURCE_MSM)
        (trace started_world)"
proof -
  have a: "\<not> spec_stop_order 1 (Ptr ()) (code_stop_order 1 (Ptr ()))"
    by (simp add: spec_stop_order_def code_stop_order_def)
  have b: "precedes (Unadvise 1)
        (WlanRegisterNotification (Ptr ()) WLAN_NOTIFICATION_SOURCE_NONE)
        (code_stop_order 1 (Ptr ()))"
    "precedes CoUninitialize
        (WlanRegisterNotification (Ptr ()) WLAN_NOTIFICATION_SOURCE_NONE)
        (code_stop_order 1 (Ptr ()))"
    by (simp_all add: code_stop_order_def)
  have c: "precedes Advise
        (WlanRegisterNotification (Ptr ()) WLAN_NOTIFICATION_SOURCE_MSM)
        (trace started_world)"
    by (simp add: started_world_eq)
  from OnExit_actions_started a b c show ?thesis by blast
qed

text \<open>
  C5, amended. The stop releases the connectivity side first and the wireless side
  last: it unregisters the connectivity subscriber, releases the subscriber object,
  releases the intermediate interface references (the connection point, then its
  container), releases the root object and tears down the runtime context, which is
  the reverse of the order in which the connectivity side acquired them; only then
  does it unregister the wireless subscriber and close the wireless handle. Each
  release of the connectivity side is made only for a pointer that is not null.
\<close>

theorem C5_stop_order_of_the_code:
  assumes "OnExit w = Inr w'"
  shows "trace w' = trace w
       @ (if g_pConnectPoint w \<noteq> NULL then [Unadvise (g_dwCookie w)] else [])
       @ (if g_pNetEvents w \<noteq> NULL then [g_pNetEvents_Release] else [])
       @ (if g_pConnectPoint w \<noteq> NULL then [g_pConnectPoint_Release] else [])
       @ (if g_pCPContainer w \<noteq> NULL then [g_pCPContainer_Release] else [])
       @ (if g_pNetworkListManager w \<noteq> NULL then [g_pNetworkListManager_Release] else [])
       @ [CoUninitialize,
          WlanRegisterNotification (g_hClient w) WLAN_NOTIFICATION_SOURCE_NONE,
          WlanCloseHandle (g_hClient w)]"
  using OnExit_trace [OF assms] .

theorem C5_stop_order_of_the_code_witness:
  "OnExit started_world = Inr (StopWlanMonitor stopped_world)
   \<and> trace (StopWlanMonitor stopped_world) =
       [CoInitializeEx, CoCreateInstance, QueryInterface_IConnectionPointContainer,
        FindConnectionPoint, new_CNetworkListManagerEvents, Advise, GetConnectivity,
        WlanOpenHandle, WlanEnumInterfaces, WlanQueryInterface, WlanFreeMemory,
        WlanFreeMemory, WlanRegisterNotification (Ptr ()) WLAN_NOTIFICATION_SOURCE_MSM,
        Unadvise 1, g_pNetEvents_Release, g_pConnectPoint_Release, g_pCPContainer_Release,
        g_pNetworkListManager_Release, CoUninitialize,
        WlanRegisterNotification (Ptr ()) WLAN_NOTIFICATION_SOURCE_NONE,
        WlanCloseHandle (Ptr ())]"
proof -
  have t: "trace started_world =
       [CoInitializeEx, CoCreateInstance, QueryInterface_IConnectionPointContainer,
        FindConnectionPoint, new_CNetworkListManagerEvents, Advise, GetConnectivity,
        WlanOpenHandle, WlanEnumInterfaces, WlanQueryInterface, WlanFreeMemory,
        WlanFreeMemory, WlanRegisterNotification (Ptr ()) WLAN_NOTIFICATION_SOURCE_MSM]"
    by (simp add: started_world_eq)
  from C5_stop_order_of_the_code [OF first_OnExit]
  have "trace (StopWlanMonitor stopped_world) = trace started_world
       @ [Unadvise 1, g_pNetEvents_Release, g_pConnectPoint_Release, g_pCPContainer_Release,
          g_pNetworkListManager_Release, CoUninitialize,
          WlanRegisterNotification (Ptr ()) WLAN_NOTIFICATION_SOURCE_NONE,
          WlanCloseHandle (Ptr ())]"
    by (simp add: started_world_globals)
  with t first_OnExit show ?thesis by simp
qed

end
